theory Spec2Isabelle
  imports Complex_Main
begin

section \<open>Tensor values\<close>

text \<open>
  The statistics engine of \<^verbatim>\<open>util.py\<close> computes on torch / numpy arrays of doubles.
  An array entry is modelled as a value of \<open>fval\<close>: a missing value \<open>NaN\<close>, one of the
  two infinities, or a finite number carried as an exact real. The operations follow the
  IEEE 754 rules for the special values (NaN is contagious, \<open>inf - inf\<close>, \<open>0 * inf\<close>,
  \<open>0 / 0\<close> and \<open>inf / inf\<close> are NaN, a non-zero number divided by zero is an infinity,
  every comparison with NaN is false). Finite results are exact: rounding, overflow and
  the sign of zero are not part of the model.
\<close>

datatype fval = NaN | NegInf | Fin real | PosInf

fun isnan :: "fval \<Rightarrow> bool" where
  "isnan NaN = True"
| "isnan _ = False"

fun isinf :: "fval \<Rightarrow> bool" where
  "isinf NegInf = True"
| "isinf PosInf = True"
| "isinf _ = False"

fun f_neg :: "fval \<Rightarrow> fval" where
  "f_neg NaN = NaN"
| "f_neg NegInf = PosInf"
| "f_neg PosInf = NegInf"
| "f_neg (Fin a) = Fin (- a)"

fun f_add :: "fval \<Rightarrow> fval \<Rightarrow> fval" where
  "f_add NaN _ = NaN"
| "f_add _ NaN = NaN"
| "f_add PosInf NegInf = NaN"
| "f_add NegInf PosInf = NaN"
| "f_add PosInf _ = PosInf"
| "f_add _ PosInf = PosInf"
| "f_add NegInf _ = NegInf"
| "f_add _ NegInf = NegInf"
| "f_add (Fin a) (Fin b) = Fin (a + b)"

definition f_sub :: "fval \<Rightarrow> fval \<Rightarrow> fval" where
  "f_sub a b = f_add a (f_neg b)"

fun f_mul :: "fval \<Rightarrow> fval \<Rightarrow> fval" where
  "f_mul NaN _ = NaN"
| "f_mul _ NaN = NaN"
| "f_mul (Fin a) (Fin b) = Fin (a * b)"
| "f_mul (Fin a) PosInf = (if a = 0 then NaN else if 0 < a then PosInf else NegInf)"
| "f_mul (Fin a) NegInf = (if a = 0 then NaN else if 0 < a then NegInf else PosInf)"
| "f_mul PosInf (Fin b) = (if b = 0 then NaN else if 0 < b then PosInf else NegInf)"
| "f_mul NegInf (Fin b) = (if b = 0 then NaN else if 0 < b then NegInf else PosInf)"
| "f_mul PosInf PosInf = PosInf"
| "f_mul NegInf NegInf = PosInf"
| "f_mul PosInf NegInf = NegInf"
| "f_mul NegInf PosInf = NegInf"

text \<open>Division; a zero divisor counts as \<open>+0\<close>.\<close>

fun f_div :: "fval \<Rightarrow> fval \<Rightarrow> fval" where
  "f_div NaN _ = NaN"
| "f_div _ NaN = NaN"
| "f_div (Fin a) (Fin b) =
     (if b = 0 then (if a = 0 then NaN else if 0 < a then PosInf else NegInf)
      else Fin (a / b))"
| "f_div (Fin a) PosInf = Fin 0"
| "f_div (Fin a) NegInf = Fin 0"
| "f_div PosInf (Fin b) = (if 0 \<le> b then PosInf else NegInf)"
| "f_div NegInf (Fin b) = (if 0 \<le> b then NegInf else PosInf)"
| "f_div PosInf _ = NaN"
| "f_div NegInf _ = NaN"

fun f_log :: "fval \<Rightarrow> fval" where
  "f_log NaN = NaN"
| "f_log NegInf = NaN"
| "f_log PosInf = PosInf"
| "f_log (Fin a) = (if a < 0 then NaN else if a = 0 then NegInf else Fin (ln a))"

fun f_exp :: "fval \<Rightarrow> fval" where
  "f_exp NaN = NaN"
| "f_exp NegInf = Fin 0"
| "f_exp PosInf = PosInf"
| "f_exp (Fin a) = Fin (exp a)"

fun f_abs :: "fval \<Rightarrow> fval" where
  "f_abs NaN = NaN"
| "f_abs NegInf = PosInf"
| "f_abs PosInf = PosInf"
| "f_abs (Fin a) = Fin \<bar>a\<bar>"

definition f_square :: "fval \<Rightarrow> fval" where
  "f_square a = f_mul a a"

text \<open>Comparisons: each is false as soon as one side is NaN.\<close>

fun f_lt :: "fval \<Rightarrow> fval \<Rightarrow> bool" where
  "f_lt NaN _ = False"
| "f_lt _ NaN = False"
| "f_lt _ NegInf = False"
| "f_lt NegInf _ = True"
| "f_lt PosInf _ = False"
| "f_lt _ PosInf = True"
| "f_lt (Fin a) (Fin b) = (a < b)"

fun f_eq :: "fval \<Rightarrow> fval \<Rightarrow> bool" where
  "f_eq NaN _ = False"
| "f_eq _ NaN = False"
| "f_eq a b = (a = b)"

definition f_gt :: "fval \<Rightarrow> fval \<Rightarrow> bool" where
  "f_gt a b = f_lt b a"

definition f_le :: "fval \<Rightarrow> fval \<Rightarrow> bool" where
  "f_le a b = (f_lt a b \<or> f_eq a b)"

definition f_ge :: "fval \<Rightarrow> fval \<Rightarrow> bool" where
  "f_ge a b = f_le b a"

text \<open>\<open>!=\<close> is the negation of \<open>==\<close>, so it is true on NaN.\<close>

definition f_ne :: "fval \<Rightarrow> fval \<Rightarrow> bool" where
  "f_ne a b = (\<not> f_eq a b)"

text \<open>
  \<open>pow\<close> with the special cases of C's \<open>pow\<close>: \<open>x ** 0\<close> and \<open>1 ** y\<close> are 1 even on
  NaN, a negative base needs an integer exponent, \<open>0 ** y\<close> is \<open>+inf\<close> for negative \<open>y\<close>.
\<close>

definition is_integer :: "real \<Rightarrow> bool" where
  "is_integer y = (y = of_int \<lfloor>y\<rfloor>)"

definition pow_real :: "real \<Rightarrow> real \<Rightarrow> fval" where
  "pow_real x y =
     (if 0 < x then Fin (x powr y)
      else if x = 0 then (if y < 0 then PosInf else Fin 0)
      else if is_integer y then Fin (if even \<lfloor>y\<rfloor> then \<bar>x\<bar> powr y else - (\<bar>x\<bar> powr y))
      else NaN)"

fun f_pow :: "fval \<Rightarrow> fval \<Rightarrow> fval" where
  "f_pow x (Fin y) =
     (if y = 0 then Fin 1
      else case x of
        NaN \<Rightarrow> NaN
      | Fin a \<Rightarrow> pow_real a y
      | PosInf \<Rightarrow> (if y < 0 then Fin 0 else PosInf)
      | NegInf \<Rightarrow> (if y < 0 then Fin 0
                   else if is_integer y \<and> odd \<lfloor>y\<rfloor> then NegInf else PosInf))"
| "f_pow x NaN = (if x = Fin 1 then Fin 1 else NaN)"
| "f_pow x PosInf =
     (case x of
        NaN \<Rightarrow> NaN
      | Fin a \<Rightarrow> (if \<bar>a\<bar> = 1 then Fin 1 else if \<bar>a\<bar> < 1 then Fin 0 else PosInf)
      | _ \<Rightarrow> PosInf)"
| "f_pow x NegInf =
     (case x of
        NaN \<Rightarrow> NaN
      | Fin a \<Rightarrow> (if \<bar>a\<bar> = 1 then Fin 1 else if \<bar>a\<bar> < 1 then PosInf else Fin 0)
      | _ \<Rightarrow> Fin 0)"

text \<open>
  The error function of \<open>torch.erf\<close>, by its power series, with the limits \<open>-1\<close> and
  \<open>1\<close> at the infinities.
\<close>

definition erf_real :: "real \<Rightarrow> real" where
  "erf_real x = 2 / sqrt pi * (\<Sum>n. (- 1) ^ n * x ^ (2 * n + 1) / (fact n * real (2 * n + 1)))"

fun f_erf :: "fval \<Rightarrow> fval" where
  "f_erf NaN = NaN"
| "f_erf NegInf = Fin (- 1)"
| "f_erf PosInf = Fin 1"
| "f_erf (Fin a) = Fin (erf_real a)"

text \<open>\<open>torch.sigmoid\<close>: \<open>1 / (1 + exp(-x))\<close>.\<close>

definition f_sigmoid :: "fval \<Rightarrow> fval" where
  "f_sigmoid x = f_div (Fin 1) (f_add (Fin 1) (f_exp (f_neg x)))"

text \<open>
  \<open>torch.nn.functional.softplus(x, beta, threshold=20)\<close>: \<open>log(1 + exp(beta * x)) / beta\<close>,
  and \<open>x\<close> itself where \<open>beta * x\<close> is above the threshold.
\<close>

definition f_softplus :: "real \<Rightarrow> fval \<Rightarrow> fval" where
  "f_softplus beta x =
     (if f_gt (f_mul x (Fin beta)) (Fin 20) then x
      else f_div (f_log (f_add (Fin 1) (f_exp (f_mul x (Fin beta))))) (Fin beta))"

text \<open>
  \<open>torch.nn.functional.threshold(x, th, value)\<close>: \<open>value\<close> where \<open>x <= th\<close>, else \<open>x\<close>.
\<close>

definition f_threshold :: "real \<Rightarrow> real \<Rightarrow> fval \<Rightarrow> fval" where
  "f_threshold th v x = (if f_le x (Fin th) then Fin v else x)"

text \<open>A boolean mask entry used as a number.\<close>

definition of_bool_f :: "bool \<Rightarrow> fval" where
  "of_bool_f b = Fin (if b then 1 else 0)"

section \<open>Tensors\<close>

text \<open>
  A tensor is the list of its cells; every array of one call has the same cells, in the
  same order. A parameter tensor with a second axis of size two (\<open>stats[:, 0]\<close>,
  \<open>stats[:, 1]\<close>) is a list of pairs. Python scalars are reals and broadcast against
  every cell.
\<close>

type_synonym tensor = "fval list"
type_synonym mask = "bool list"
type_synonym stats = "(fval \<times> fval) list"

datatype exn = ValueError | AssertionError | TypeError | IndexError | RecursionError | RuntimeError

definition t_op :: "(fval \<Rightarrow> fval \<Rightarrow> fval) \<Rightarrow> tensor \<Rightarrow> tensor \<Rightarrow> tensor" where
  "t_op f xs ys = map2 f xs ys"

text \<open>Tensor with a scalar on the right, and with a scalar on the left.\<close>

definition t_sr :: "(fval \<Rightarrow> fval \<Rightarrow> fval) \<Rightarrow> tensor \<Rightarrow> real \<Rightarrow> tensor" where
  "t_sr f xs c = map (\<lambda>x. f x (Fin c)) xs"

definition t_sl :: "(fval \<Rightarrow> fval \<Rightarrow> fval) \<Rightarrow> real \<Rightarrow> tensor \<Rightarrow> tensor" where
  "t_sl f c xs = map (\<lambda>x. f (Fin c) x) xs"

definition t_cmp :: "(fval \<Rightarrow> fval \<Rightarrow> bool) \<Rightarrow> tensor \<Rightarrow> tensor \<Rightarrow> mask" where
  "t_cmp p xs ys = map2 p xs ys"

definition t_cmps :: "(fval \<Rightarrow> fval \<Rightarrow> bool) \<Rightarrow> tensor \<Rightarrow> real \<Rightarrow> mask" where
  "t_cmps p xs c = map (\<lambda>x. p x (Fin c)) xs"

definition m_and :: "mask \<Rightarrow> mask \<Rightarrow> mask" where
  "m_and a b = map2 (\<and>) a b"

definition m_not :: "mask \<Rightarrow> mask" where
  "m_not a = map Not a"

definition zeros_like :: "tensor \<Rightarrow> tensor" where
  "zeros_like xs = map (\<lambda>_. Fin 0) xs"

definition ones_like :: "tensor \<Rightarrow> tensor" where
  "ones_like xs = map (\<lambda>_. Fin 1) xs"

definition col0 :: "stats \<Rightarrow> tensor" where
  "col0 s = map fst s"

definition col1 :: "stats \<Rightarrow> tensor" where
  "col1 s = map snd s"

text \<open>\<open>torch.stack([a, b], axis=1)\<close>; the two tensors must have one shape.\<close>

definition stack :: "tensor \<Rightarrow> tensor \<Rightarrow> exn + stats" where
  "stack a b = (if length a = length b then Inr (zip a b) else Inl RuntimeError)"

text \<open>
  Boolean-mask indexing. \<open>x[m]\<close> selects the cells where the mask is true;
  \<open>out[m] += vs\<close> and \<open>out[m] = vs\<close> write the selected values back in order;
  \<open>out[m] = c\<close>, \<open>out[m] += c\<close> and \<open>out[m] /= c\<close> act on the selected cells with a
  scalar.
\<close>

fun gather :: "mask \<Rightarrow> 'a list \<Rightarrow> 'a list" where
  "gather (b # m) (x # xs) = (if b then x # gather m xs else gather m xs)"
| "gather _ _ = []"

fun scatter_add :: "mask \<Rightarrow> tensor \<Rightarrow> tensor \<Rightarrow> tensor" where
  "scatter_add (True # m) (x # xs) (v # vs) = f_add x v # scatter_add m xs vs"
| "scatter_add (False # m) (x # xs) vs = x # scatter_add m xs vs"
| "scatter_add _ xs _ = xs"

fun scatter_set :: "mask \<Rightarrow> tensor \<Rightarrow> tensor \<Rightarrow> tensor" where
  "scatter_set (True # m) (x # xs) (v # vs) = v # scatter_set m xs vs"
| "scatter_set (False # m) (x # xs) vs = x # scatter_set m xs vs"
| "scatter_set _ xs _ = xs"

definition mask_upd :: "(fval \<Rightarrow> fval) \<Rightarrow> mask \<Rightarrow> tensor \<Rightarrow> tensor" where
  "mask_upd f m xs = map2 (\<lambda>b x. if b then f x else x) m xs"

section \<open>Constraint module\<close>

text \<open>\<open>prob_constraint(k, eps=0.01)\<close>\<close>

definition prob_constraint :: "tensor \<Rightarrow> real \<Rightarrow> tensor" where
  "prob_constraint k eps = t_sr f_add (t_sr f_mul (map f_sigmoid k) (1 - 2 * eps)) eps"

text \<open>\<open>pos_constraint(k, func='exp', eps=1e-2)\<close>\<close>

definition pos_constraint :: "tensor \<Rightarrow> string \<Rightarrow> real \<Rightarrow> exn + tensor" where
  "pos_constraint k func eps =
     (if func = ''exp'' then Inr (t_sr f_add (map f_exp k) eps)
      else if func = ''abs'' then Inr (t_sr f_add (map f_abs k) eps)
      else if func = ''square'' then Inr (t_sr f_add (map f_square k) eps)
      else Inl ValueError)"

definition upper_thresh_constraint :: "tensor \<Rightarrow> real \<Rightarrow> bool \<Rightarrow> real \<Rightarrow> exn + tensor" where
  "upper_thresh_constraint x thresh constrain_positive beta =
     (case (if constrain_positive then pos_constraint x ''exp'' (1 / 100) else Inr x) of
        Inl e \<Rightarrow> Inl e
      | Inr out \<Rightarrow>
          Inr (t_sr f_add (map f_neg (map (f_softplus beta) (t_sr f_add (map f_neg out) thresh)))
                 thresh))"

definition lognormal_constraint :: "tensor \<Rightarrow> tensor \<Rightarrow> exn + stats" where
  "lognormal_constraint mu var =
     (case upper_thresh_constraint var 30 True 1 of
        Inl e \<Rightarrow> Inl e
      | Inr v \<Rightarrow> stack mu v)"

definition gp_upper_thresh_constraint :: "tensor \<Rightarrow> real \<Rightarrow> real \<Rightarrow> exn + tensor" where
  "gp_upper_thresh_constraint x thresh beta =
     (case upper_thresh_constraint x thresh False beta of
        Inl e \<Rightarrow> Inl e
      | Inr upper_threshed_output \<Rightarrow>
          (let output_weight = t_sr f_div x thresh;
               output_weight = t_sl f_mul (- 1)
                  (map (f_threshold (- 1) (- 1))
                     (t_sl f_mul (- 1) (map (f_threshold 0 0) output_weight)))
           in Inr (t_op f_add (t_op f_mul output_weight upper_threshed_output)
                     (t_op f_mul (t_sl f_sub 1 output_weight) x))))"


text \<open>
  \<open>gp_constraint2(k1, k2, maxis, continuous_evt, initial_density=None, eps=1e-6)\<close>.
  The assertion on \<open>initial_density\<close> is the \<open>None\<close> case.
\<close>

definition gp_constraint2 ::
  "tensor \<Rightarrow> tensor \<Rightarrow> tensor \<Rightarrow> bool \<Rightarrow> tensor option \<Rightarrow> real \<Rightarrow> exn + stats" where
  "gp_constraint2 k1 k2 maxis continuous_evt initial_density eps =
     (case pos_constraint k1 ''exp'' (1 / 100) of
        Inl e \<Rightarrow> Inl e
      | Inr k1 \<Rightarrow>
         (case (if continuous_evt
                then (case initial_density of
                        None \<Rightarrow> Inl AssertionError
                      | Some d \<Rightarrow> Inr (t_sl f_div 1 d))
                else upper_thresh_constraint k2 40 True 1) of
            Inl e \<Rightarrow> Inl e
          | Inr sigma \<Rightarrow>
             (let xi = t_op f_div (t_op f_mul (t_sr f_sub k1 1) sigma) (t_sr f_add maxis eps)
              in case gp_upper_thresh_constraint xi (9 / 10) 5 of
                   Inl e \<Rightarrow> Inl e
                 | Inr xi' \<Rightarrow> stack xi' sigma)))"

section \<open>Distribution primitives\<close>

text \<open>\<open>gp_mean(xi, sigma, thresh, eps=1e-4)\<close>\<close>

definition gp_mean :: "tensor \<Rightarrow> tensor \<Rightarrow> tensor \<Rightarrow> tensor" where
  "gp_mean xi sigma thresh = t_op f_add thresh (t_op f_div sigma (t_sl f_sub 1 xi))"

text \<open>\<open>norm_cdf(vals, mu, sigma)\<close>; \<open>sigma.reciprocal()\<close> is \<open>1 / sigma\<close>.\<close>

definition norm_cdf :: "tensor \<Rightarrow> tensor \<Rightarrow> tensor \<Rightarrow> tensor" where
  "norm_cdf vals mu sigma =
     t_sl f_mul (1 / 2)
       (t_sl f_add 1
          (map f_erf (t_sr f_div (t_op f_mul (t_op f_sub vals mu) (t_sl f_div 1 sigma)) (sqrt 2))))"

text \<open>\<open>trunc_lognorm_mean(mu, var, upper, eps=1e-6)\<close>\<close>

definition trunc_lognorm_mean :: "tensor \<Rightarrow> tensor \<Rightarrow> tensor \<Rightarrow> real \<Rightarrow> tensor" where
  "trunc_lognorm_mean mu var upper eps =
     (let beta = t_op f_div (t_op f_sub (map f_log upper) mu) (t_sr f_pow var (1 / 2));
          sigma = t_sr f_pow var (1 / 2);
          scaling_factor =
            t_op f_div (norm_cdf (t_op f_sub beta sigma) (zeros_like beta) (ones_like beta))
              (t_sl f_add eps (norm_cdf beta (zeros_like beta) (ones_like beta)));
          exp = map f_exp (t_op f_add mu (t_sr f_div var 2))
      in t_op f_mul exp scaling_factor)"

text \<open>\<open>lognorm_cdf(vals, mu, var)\<close>\<close>

definition lognorm_cdf :: "tensor \<Rightarrow> tensor \<Rightarrow> tensor \<Rightarrow> tensor" where
  "lognorm_cdf vals mu var =
     t_sl f_add (1 / 2)
       (t_sl f_mul (1 / 2)
          (map f_erf (t_op f_div (t_op f_sub (map f_log vals) mu)
                        (t_sr f_mul (t_sr f_pow var (1 / 2)) (sqrt 2)))))"

text \<open>
  \<open>lognormal(samples, mu, var)\<close>. The first statement writes into the caller's
  \<open>samples\<close> array, so the function returns the array after the call together with its
  result. \<open>to_tensor(2 * 3.14159274)\<close> is a one-cell tensor that broadcasts like a scalar.
\<close>

definition lognormal :: "tensor \<Rightarrow> tensor \<Rightarrow> tensor \<Rightarrow> tensor \<times> tensor" where
  "lognormal samples mu var =
     (let samples = mask_upd (\<lambda>x. f_add x (Fin 10)) (t_cmps f_eq samples 0) samples;
          first_term =
            t_sr f_sub
              (t_op f_sub (map f_neg (map f_log samples)) (t_sl f_mul (1 / 2) (map f_log var)))
              (1 / 2 * ln (2 * (314159274 / 100000000)));
          second_term =
            map f_neg
              (t_op f_div (t_sr f_pow (t_op f_sub (map f_log samples) mu) 2) (t_sl f_mul 2 var))
      in (samples, t_op f_add first_term second_term))"

text \<open>
  A call of \<open>lognormal\<close> with its three positional arguments and the keyword arguments
  \<open>kwargs\<close>. The three positional arguments fill every parameter of the signature, so
  Python raises TypeError for any keyword, before the body runs.
\<close>

definition call_lognormal ::
  "string list \<Rightarrow> tensor \<Rightarrow> tensor \<Rightarrow> tensor \<Rightarrow> tensor \<times> (exn + tensor)" where
  "call_lognormal kwargs samples mu var =
     (if kwargs = [] then (case lognormal samples mu var of (samples', r) \<Rightarrow> (samples', Inr r))
      else (samples, Inl TypeError))"

text \<open>\<open>threshed_lognorm(samples, threshes, mu, var, eps=1e-6)\<close>, with the array after the call.\<close>

definition threshed_lognorm ::
  "tensor \<Rightarrow> tensor \<Rightarrow> tensor \<Rightarrow> tensor \<Rightarrow> real \<Rightarrow> tensor \<times> tensor" where
  "threshed_lognorm samples threshes mu var eps =
     (case lognormal samples mu var of
        (samples', l) \<Rightarrow>
          (samples', t_op f_sub l (map f_log (t_sr f_add (lognorm_cdf threshes mu var) eps))))"

text \<open>
  \<open>threshed_lognorm_cdf(vals, mu, var, lower=None, upper=None)\<close>. A bound that is not
  given is a Python scalar, broadcast here over the cells of \<open>vals\<close>.
\<close>

definition full_like :: "tensor \<Rightarrow> real \<Rightarrow> tensor" where
  "full_like xs c = map (\<lambda>_. Fin c) xs"

definition threshed_lognorm_cdf ::
  "tensor \<Rightarrow> tensor \<Rightarrow> tensor \<Rightarrow> tensor option \<Rightarrow> tensor option \<Rightarrow> tensor" where
  "threshed_lognorm_cdf vals mu var lower upper =
     (let (upper', upper_cdf) =
            (case upper of
               None \<Rightarrow> (full_like vals 99999999, full_like vals 1)
             | Some u \<Rightarrow> (u, lognorm_cdf u mu var));
          (lower', lower_cdf) =
            (case lower of
               None \<Rightarrow> (full_like vals (- 99999999), full_like vals 0)
             | Some l \<Rightarrow> (l, lognorm_cdf l mu var));
          denom = t_op f_sub upper_cdf lower_cdf;
          out = t_op f_div (lognorm_cdf vals mu var) denom;
          out = mask_upd (\<lambda>_. Fin 0) (t_cmp f_lt vals lower') out;
          out = mask_upd (\<lambda>_. Fin 1) (t_cmp f_gt vals upper') out;
          out = mask_upd (\<lambda>_. Fin 0) (t_cmps f_eq denom 0) out
      in out)"

text \<open>\<open>gpd_cdf(vals, xi, sigma, thresh)\<close>, with the tensor \<open>thresh\<close> that \<open>all_cdf\<close> passes.\<close>

definition gpd_cdf :: "tensor \<Rightarrow> tensor \<Rightarrow> tensor \<Rightarrow> tensor \<Rightarrow> tensor" where
  "gpd_cdf vals xi sigma thresh =
     t_sl f_sub 1
       (t_op f_pow
          (t_sl f_add 1 (t_op f_div (t_op f_mul xi (t_op f_sub vals thresh)) sigma))
          (t_sl f_div (- 1) xi))"

text \<open>\<open>gpd(raw_samples, xi, sigma)\<close>: the log-density of the generalized Pareto distribution.\<close>

definition gpd :: "tensor \<Rightarrow> tensor \<Rightarrow> tensor \<Rightarrow> tensor" where
  "gpd raw_samples xi sigma =
     (let samples = t_op f_add (zeros_like raw_samples) raw_samples;
          mask = m_not (map isnan raw_samples);
          alt_mask = m_not (map isnan xi);
          mask = m_and mask alt_mask;
          samples = mask_upd (\<lambda>_. Fin 0) (m_not mask) samples;
          xi_is_zero = t_cmps f_eq xi 0;
          nz = m_not xi_is_zero;
          xi_nz =
            t_op f_add (map f_log (gather nz sigma))
              (t_op f_mul
                 (t_op f_mul (t_sl f_add 1 (t_sl f_div 1 (gather nz xi)))
                    (map of_bool_f (gather nz mask)))
                 (map f_log
                    (t_sl f_add 1
                       (t_op f_div (t_op f_mul (gather nz xi) (gather nz samples))
                          (gather nz sigma)))));
          xi_nz = t_sr f_mul xi_nz (- 1);
          xi_z =
            t_op f_add (map f_log (gather xi_is_zero sigma))
              (t_op f_mul (t_sl f_div 1 (gather xi_is_zero sigma)) (gather xi_is_zero samples));
          xi_z = t_sr f_mul xi_z (- 1);
          out = zeros_like samples;
          out = scatter_add xi_is_zero out xi_z;
          out = scatter_add nz out xi_nz;
          out = mask_upd (\<lambda>_. NaN) (m_not mask) out
      in out)"

section \<open>Mixture aggregator\<close>

definition is_above_thresh :: "tensor \<Rightarrow> tensor \<Rightarrow> bool \<Rightarrow> mask" where
  "is_above_thresh samples threshes flip =
     (if flip then m_and (t_cmp f_lt samples threshes) (t_cmps f_gt samples 0)
      else m_and (t_cmp f_ge samples threshes) (t_cmps f_gt samples 0))"

definition is_zero :: "tensor \<Rightarrow> bool \<Rightarrow> mask" where
  "is_zero samples flip =
     (if flip then m_and (t_cmps f_ne samples 0) (m_not (map isnan samples))
      else t_cmps f_eq samples 0)"

definition loglik_zero :: "tensor \<Rightarrow> tensor \<Rightarrow> tensor \<times> tensor" where
  "loglik_zero samples zero_probs =
     (let z_bool = is_zero samples False;
          nz_bool = is_zero samples True;
          out_zero =
            t_op f_add (zeros_like samples) (t_op f_mul (map of_bool_f z_bool) (map f_log zero_probs));
          out_nonzero =
            t_op f_add (zeros_like samples)
              (t_op f_mul (map of_bool_f nz_bool) (map f_log (t_sl f_sub 1 zero_probs)));
          nan_inds = map isnan samples;
          out_zero = mask_upd (\<lambda>x. f_add x NaN) nan_inds out_zero;
          out_nonzero = mask_upd (\<lambda>x. f_add x NaN) nan_inds out_nonzero
      in (out_zero, out_nonzero))"

definition loglik_above_thresh :: "tensor \<Rightarrow> tensor \<Rightarrow> tensor \<Rightarrow> tensor \<times> tensor" where
  "loglik_above_thresh samples threshes above_thresh_probs =
     (let t_bool = is_above_thresh samples threshes False;
          nt_bool = is_above_thresh samples threshes True
      in (t_op f_mul (map of_bool_f t_bool) (map f_log above_thresh_probs),
          t_op f_mul (map of_bool_f nt_bool) (map f_log (t_sl f_sub 1 above_thresh_probs))))"

text \<open>\<open>nan_to_num(x, fill_val=0.)\<close>\<close>

definition nan_to_num :: "tensor \<Rightarrow> real \<Rightarrow> tensor" where
  "nan_to_num x fill_val = mask_upd (\<lambda>_. Fin fill_val) (map isnan x) x"

definition nan_transfer :: "tensor \<Rightarrow> tensor \<Rightarrow> tensor" where
  "nan_transfer w_nan wo_nan =
     (let out = zeros_like wo_nan;
          out = t_op f_add out wo_nan;
          out = mask_upd (\<lambda>x. f_add x NaN) (map isnan w_nan) out
      in out)"

text \<open>
  \<open>loglik\<close>, in two parts: \<open>loglik_terms\<close> is the body up to the six terms that
  \<open>nan_transfer\<close> returns, in the order of the final sum (zero gate, non-zero gate,
  non-excess gate, moderate density, excess gate, GP density); \<open>loglik\<close> adds them up and
  puts the missing-value mask back. \<open>nonzeros\<close> is a fresh array, so the write of
  \<open>lognormal\<close> into its argument does not reach the caller's \<open>samples\<close>.
\<close>

definition loglik_terms ::
  "tensor \<Rightarrow> stats \<Rightarrow> stats \<Rightarrow> tensor \<Rightarrow> tensor \<Rightarrow> tensor \<Rightarrow> string \<Rightarrow>
     exn + tensor \<times> tensor \<times> tensor \<times> tensor \<times> tensor \<times> tensor" where
  "loglik_terms samples gpd_stats moderate_stats zero_probs excess_probs threshes moderate_func =
     (case loglik_zero samples zero_probs of (zero_loglik, nz_loglik) \<Rightarrow>
      case loglik_above_thresh samples threshes excess_probs of (thresh_loglik, nthresh_loglik) \<Rightarrow>
      let excesses = zeros_like samples;
          excess_inds = t_cmp f_gt samples threshes;
          excesses = scatter_add excess_inds excesses
                       (t_op f_sub (gather excess_inds samples) (gather excess_inds threshes));
          excesses = mask_upd (\<lambda>x. f_div x (Fin 0)) (m_not excess_inds) excesses;
          excess_loglik = gpd excesses (col0 gpd_stats) (col1 gpd_stats);
          nonzeros = zeros_like samples;
          nz_inds = m_and (t_cmps f_gt samples 0) (m_not excess_inds);
          nonzeros = scatter_add nz_inds nonzeros (gather nz_inds samples)
      in if moderate_func = ''lognormal'' then
           (let main_loglik =
                  snd (threshed_lognorm nonzeros threshes (col0 moderate_stats)
                         (col1 moderate_stats) (1 / 1000000));
                main_loglik =
                  scatter_set (m_not nz_inds) main_loglik
                    (t_sr f_div (zeros_like (gather (m_not nz_inds) main_loglik)) 0)
            in Inr (nan_transfer samples zero_loglik,
                    nan_transfer samples nz_loglik,
                    nan_transfer samples nthresh_loglik,
                    nan_transfer samples main_loglik,
                    nan_transfer samples thresh_loglik,
                    nan_transfer samples excess_loglik))
         else Inl ValueError)"

definition loglik ::
  "tensor \<Rightarrow> stats \<Rightarrow> stats \<Rightarrow> tensor \<Rightarrow> tensor \<Rightarrow> tensor \<Rightarrow> string \<Rightarrow> exn + tensor" where
  "loglik samples gpd_stats moderate_stats zero_probs excess_probs threshes moderate_func =
     (let nan_inds = map isnan samples
      in case loglik_terms samples gpd_stats moderate_stats zero_probs excess_probs threshes
                moderate_func of
           Inl e \<Rightarrow> Inl e
         | Inr (zero_loglik, nz_loglik, nthresh_loglik, main_loglik, thresh_loglik, excess_loglik) \<Rightarrow>
            (let total_loglik =
                   t_op f_add
                     (t_op f_add
                        (t_op f_add
                           (t_op f_add
                              (t_op f_add (nan_to_num zero_loglik 0) (nan_to_num nz_loglik 0))
                              (nan_to_num nthresh_loglik 0))
                           (nan_to_num main_loglik 0))
                        (nan_to_num thresh_loglik 0))
                     (nan_to_num excess_loglik 0);
                 total_loglik = mask_upd (\<lambda>x. f_add x NaN) nan_inds total_loglik
             in Inr total_loglik))"


text \<open>
  \<open>all_cdf\<close>. The \<open>ValueError\<close> of an unsupported \<open>moderate_func\<close> is raised after
  the first write into the local \<open>out\<close>, which nobody else sees.
\<close>

definition all_cdf ::
  "tensor \<Rightarrow> stats \<Rightarrow> stats \<Rightarrow> tensor \<Rightarrow> tensor \<Rightarrow> tensor \<Rightarrow> tensor \<Rightarrow> string \<Rightarrow> exn + tensor" where
  "all_cdf samples gpd_stats moderate_stats zero_probs excess_probs effective_threshes
     actual_threshes moderate_func =
     (let out = zeros_like samples;
          nz_inds = t_cmps f_gt samples 0;
          excess_inds = t_cmp f_gt samples effective_threshes;
          out = scatter_add (t_cmps f_ge samples 0) out (gather (t_cmps f_ge samples 0) zero_probs)
      in if moderate_func = ''lognormal'' then
           (let out = scatter_add nz_inds out
                        (t_op f_mul
                           (t_op f_mul (t_sl f_sub 1 (gather nz_inds zero_probs))
                              (t_sl f_sub 1 (gather nz_inds excess_probs)))
                           (threshed_lognorm_cdf (gather nz_inds samples)
                              (gather nz_inds (col0 moderate_stats))
                              (gather nz_inds (col1 moderate_stats))
                              None (Some (gather nz_inds effective_threshes))));
                out = scatter_add excess_inds out
                        (t_op f_mul
                           (t_op f_mul (t_sl f_sub 1 (gather excess_inds zero_probs))
                              (gather excess_inds excess_probs))
                           (gpd_cdf (gather excess_inds samples)
                              (gather excess_inds (col0 gpd_stats))
                              (gather excess_inds (col1 gpd_stats))
                              (gather excess_inds actual_threshes)))
            in Inr out)
         else Inl ValueError)"

text \<open>
  \<open>all_mean\<close>. \<open>weighted_zero\<close> and, when every threshold is infinite,
  \<open>weighted_excess\<close> are the Python scalar \<open>0.\<close>.
\<close>

definition all_mean ::
  "stats \<Rightarrow> stats \<Rightarrow> tensor \<Rightarrow> tensor \<Rightarrow> tensor \<Rightarrow> string \<Rightarrow> exn + tensor" where
  "all_mean gpd_stats moderate_stats zero_probs excess_probs threshes moderate_func =
     (if moderate_func = ''lognormal'' then
        (let weighted_moderate =
               trunc_lognorm_mean (col0 moderate_stats) (col1 moderate_stats) threshes (1 / 1000000);
             weighted_moderate =
               t_op f_mul weighted_moderate
                 (t_op f_mul (t_sl f_sub 1 zero_probs) (t_sl f_sub 1 excess_probs))
         in if list_all isinf threshes
            then Inr (t_sr f_add (t_sl f_add 0 weighted_moderate) 0)
            else (let weighted_excess = gp_mean (col0 gpd_stats) (col1 gpd_stats) threshes;
                      weighted_excess =
                        t_op f_mul weighted_excess (t_op f_mul (t_sl f_sub 1 zero_probs) excess_probs)
                  in Inr (t_op f_add (t_sl f_add 0 weighted_moderate) weighted_excess)))
      else Inl ValueError)"

text \<open>
  The mean of the pure hurdle model, in the words of the specification: the zero
  component's contribution (zero) plus \<open>(1 - zeroProb) * (1 - excessProb)\<close> times the
  truncated lognormal mean. It has no GP argument.
\<close>

definition hurdle_mean_spec :: "stats \<Rightarrow> tensor \<Rightarrow> tensor \<Rightarrow> tensor \<Rightarrow> tensor" where
  "hurdle_mean_spec moderate_stats zero_probs excess_probs threshes =
     t_sl f_add 0
       (t_op f_mul (t_op f_mul (t_sl f_sub 1 zero_probs) (t_sl f_sub 1 excess_probs))
          (trunc_lognorm_mean (col0 moderate_stats) (col1 moderate_stats) threshes (1 / 1000000)))"

text \<open>
  \<open>all_constraints\<close>. The caller's \<open>thresholds\<close> array is passed to \<open>lognormal\<close> as
  its \<open>samples\<close>, so the function returns the array as it is after the call, next to the
  result or the exception. The call of \<open>lognormal\<close> carries the keyword argument
  \<open>reduction=None\<close>.
\<close>

definition all_constraints ::
  "tensor \<Rightarrow> stats \<Rightarrow> stats \<Rightarrow> tensor \<Rightarrow> bool \<Rightarrow> string \<Rightarrow> tensor option \<Rightarrow>
     tensor option \<times> (exn + tensor \<times> stats \<times> stats)" where
  "all_constraints binaries gpd_stats main_stats maxis continuous_evt main_func thresholds =
     (let binaries = prob_constraint binaries (1 / 100)
      in if main_func = ''lognormal'' then
           (case lognormal_constraint (col0 main_stats) (col1 main_stats) of
              Inl e \<Rightarrow> (thresholds, Inl e)
            | Inr main_stats \<Rightarrow>
               (case (if continuous_evt then
                        (if main_func \<noteq> ''lognormal'' then (thresholds, Inl AssertionError)
                         else case thresholds of
                                None \<Rightarrow> (None, Inl AssertionError)
                              | Some th \<Rightarrow>
                                 (case call_lognormal [''reduction''] th (col0 main_stats)
                                         (col1 main_stats) of
                                    (th', Inl e) \<Rightarrow> (Some th', Inl e)
                                  | (th', Inr l) \<Rightarrow>
                                      (Some th', Inr (Some (t_sl f_div 1 (map f_exp l))))))
                      else (thresholds, Inr None)) of
                  (thresholds', Inl e) \<Rightarrow> (thresholds', Inl e)
                | (thresholds', Inr initial_density) \<Rightarrow>
                   (case gp_constraint2 (col0 gpd_stats) (col1 gpd_stats) maxis continuous_evt
                           initial_density (1 / 1000000) of
                      Inl e \<Rightarrow> (thresholds', Inl e)
                    | Inr gpd_stats \<Rightarrow> (thresholds', Inr (binaries, gpd_stats, main_stats)))))
         else (thresholds, Inl ValueError))"

section \<open>Classification and metrics\<close>

text \<open>
  A numpy array with its shape: the cells in row-major order, as many as the product of
  the shape. A Python scalar is an array of shape \<open>[]\<close> with one cell.
\<close>

record ndarray =
  shape :: "nat list"
  cells :: tensor

definition well_shaped :: "ndarray \<Rightarrow> bool" where
  "well_shaped a = (length (cells a) = prod_list (shape a))"

text \<open>
  numpy broadcasting. Shapes are aligned on the right: the shorter one is padded with
  leading ones. Two padded shapes are broadcastable when in every position the sizes are
  equal or one of them is 1; the second expands to the first when in every position its
  size is the first's or 1. \<open>bidx tgt src i\<close> is the position in the source array of
  the cell that position \<open>i\<close> of the expanded array reads: an axis of size 1 is read
  with stride 0.
\<close>

definition pad_shape :: "nat \<Rightarrow> nat list \<Rightarrow> nat list" where
  "pad_shape r s = replicate (r - length s) 1 @ s"

fun dims_broadcastable :: "nat list \<Rightarrow> nat list \<Rightarrow> bool" where
  "dims_broadcastable [] [] = True"
| "dims_broadcastable (n # s) (m # s') = ((n = m \<or> n = 1 \<or> m = 1) \<and> dims_broadcastable s s')"
| "dims_broadcastable _ _ = False"

fun dims_expand_to :: "nat list \<Rightarrow> nat list \<Rightarrow> bool" where
  "dims_expand_to [] [] = True"
| "dims_expand_to (n # s) (m # s') = ((m = n \<or> m = 1) \<and> dims_expand_to s s')"
| "dims_expand_to _ _ = False"

fun bidx :: "nat list \<Rightarrow> nat list \<Rightarrow> nat \<Rightarrow> nat" where
  "bidx (n # s) (m # s') i =
     (if m = 1 then 0 else (i div prod_list s) * prod_list s') + bidx s s' (i mod prod_list s)"
| "bidx _ _ i = 0"

text \<open>
  \<open>compute_class_labels(y, threshes)\<close>. The function overwrites the NaN entries of the
  caller's \<open>y\<close> with zero; the pair is that array after the call and the labels or the
  exception. \<open>y > threshes\<close> broadcasts the two arrays (ValueError when the shapes are
  not broadcastable); the mask indexes \<open>labels\<close>, which has the shape of \<open>y\<close>, so its
  shape must be that of \<open>y\<close> (IndexError otherwise), that is \<open>threshes\<close> must
  expand to the shape of \<open>y\<close>.
\<close>

definition compute_class_labels :: "ndarray \<Rightarrow> ndarray \<Rightarrow> ndarray \<times> (exn + ndarray)" where
  "compute_class_labels y threshes =
     (let labels = ones_like (cells y);
          nans = map isnan (cells y);
          y = y\<lparr>cells := mask_upd (\<lambda>_. Fin 0) nans (cells y)\<rparr>;
          labels = mask_upd (\<lambda>_. Fin 0) (t_cmps f_eq (cells y) 0) labels;
          r = max (length (shape y)) (length (shape threshes));
          sy = pad_shape r (shape y);
          st = pad_shape r (shape threshes)
      in if \<not> dims_broadcastable sy st then (y, Inl ValueError)
         else if \<not> (length (shape threshes) \<le> length (shape y) \<and> dims_expand_to sy st)
         then (y, Inl IndexError)
         else (let th = map (\<lambda>i. cells threshes ! bidx sy st i) [0..<prod_list (shape y)];
                   labels = mask_upd (\<lambda>_. Fin 2) (t_cmp f_gt (cells y) th) labels;
                   labels = mask_upd (\<lambda>_. NaN) nans labels
               in (y, Inr \<lparr>shape = shape y, cells = labels\<rparr>)))"

definition no_nans :: "tensor \<Rightarrow> tensor \<Rightarrow> mask" where
  "no_nans a b = m_and (m_not (map isnan a)) (m_not (map isnan b))"

text \<open>
  \<open>pearsonr(a, b)\<close>. The module imports \<open>pearsonr\<close> from scipy and then defines a
  function of the same name, so the name in the body is the function itself: the call
  \<open>pearsonr(a.flatten(), b.flatten())\<close> is a recursive call. The first argument is the
  number of stack frames left before Python raises RecursionError. The arrays of the model
  are flat already. Indexing the result of the inner call with \<open>[0]\<close> would index a
  number.
\<close>

fun pearsonr :: "nat \<Rightarrow> tensor \<Rightarrow> tensor \<Rightarrow> exn + fval" where
  "pearsonr 0 a b = Inl RecursionError"
| "pearsonr (Suc depth) a b =
     (let mask = no_nans a b
      in case pearsonr depth a b of
           Inl e \<Rightarrow> Inl e
         | Inr r \<Rightarrow> Inl IndexError)"

section \<open>Cell-wise forms\<close>

text \<open>
  The tensor functions act cell by cell. The definitions of this section are the value
  of one cell, written with the same operations in the same order; the lemmas of the next
  section prove that the tensor functions compute them at every cell.
\<close>

text \<open>One cell of \<open>gp_upper_thresh_constraint\<close>.\<close>

definition gp_shape_cell :: "real \<Rightarrow> real \<Rightarrow> fval \<Rightarrow> fval" where
  "gp_shape_cell thresh beta v =
     f_add
       (f_mul
          (f_mul (Fin (- 1))
             (f_threshold (- 1) (- 1) (f_mul (Fin (- 1)) (f_threshold 0 0 (f_div v (Fin thresh))))))
          (f_add (f_neg (f_softplus beta (f_add (f_neg v) (Fin thresh)))) (Fin thresh)))
       (f_mul
          (f_sub (Fin 1)
             (f_mul (Fin (- 1))
                (f_threshold (- 1) (- 1)
                   (f_mul (Fin (- 1)) (f_threshold 0 0 (f_div v (Fin thresh)))))))
          v)"

text \<open>One cell of \<open>upper_thresh_constraint(var, 30, True, 1)\<close>.\<close>

definition var_cell :: "fval \<Rightarrow> fval" where
  "var_cell v =
     f_add (f_neg (f_softplus 1 (f_add (f_neg (f_add (f_exp v) (Fin (1 / 100)))) (Fin 30))))
       (Fin 30)"

text \<open>One cell of \<open>gpd\<close>.\<close>

definition gpd_cell :: "fval \<Rightarrow> fval \<Rightarrow> fval \<Rightarrow> fval" where
  "gpd_cell raw xi sigma =
     (let mask = (\<not> isnan raw \<and> \<not> isnan xi);
          sample = (if \<not> mask then Fin 0 else f_add (Fin 0) raw)
      in if \<not> mask then NaN
         else if f_eq xi (Fin 0)
              then f_add (Fin 0)
                     (f_mul (f_add (f_log sigma) (f_mul (f_div (Fin 1) sigma) sample)) (Fin (- 1)))
              else f_add (Fin 0)
                     (f_mul
                        (f_add (f_log sigma)
                           (f_mul (f_mul (f_add (Fin 1) (f_div (Fin 1) xi)) (of_bool_f mask))
                              (f_log (f_add (Fin 1) (f_div (f_mul xi sample) sigma)))))
                        (Fin (- 1))))"

text \<open>One cell of the result of \<open>lognormal\<close>.\<close>

definition lognormal_cell :: "fval \<Rightarrow> fval \<Rightarrow> fval \<Rightarrow> fval" where
  "lognormal_cell sample mu var =
     (let sample = (if f_eq sample (Fin 0) then f_add sample (Fin 10) else sample)
      in f_add
           (f_sub (f_sub (f_neg (f_log sample)) (f_mul (Fin (1 / 2)) (f_log var)))
              (Fin (1 / 2 * ln (2 * (314159274 / 100000000)))))
           (f_neg (f_div (f_pow (f_sub (f_log sample) mu) (Fin 2)) (f_mul (Fin 2) var))))"

text \<open>One cell of \<open>lognorm_cdf\<close>.\<close>

definition lognorm_cdf_cell :: "fval \<Rightarrow> fval \<Rightarrow> fval \<Rightarrow> fval" where
  "lognorm_cdf_cell v mu var =
     f_add (Fin (1 / 2))
       (f_mul (Fin (1 / 2))
          (f_erf (f_div (f_sub (f_log v) mu) (f_mul (f_pow var (Fin (1 / 2))) (Fin (sqrt 2))))))"

text \<open>One cell of the result of \<open>threshed_lognorm\<close>.\<close>

definition threshed_lognorm_cell :: "fval \<Rightarrow> fval \<Rightarrow> fval \<Rightarrow> fval \<Rightarrow> real \<Rightarrow> fval" where
  "threshed_lognorm_cell sample thresh mu var eps =
     f_sub (lognormal_cell sample mu var) (f_log (f_add (lognorm_cdf_cell thresh mu var) (Fin eps)))"

text \<open>One cell of \<open>gpd_cdf\<close>.\<close>

definition gpd_cdf_cell :: "fval \<Rightarrow> fval \<Rightarrow> fval \<Rightarrow> fval \<Rightarrow> fval" where
  "gpd_cdf_cell v xi sigma thresh =
     f_sub (Fin 1)
       (f_pow (f_add (Fin 1) (f_div (f_mul xi (f_sub v thresh)) sigma)) (f_div (Fin (- 1)) xi))"

text \<open>One cell of \<open>threshed_lognorm_cdf\<close> with the upper bound given and the lower bound left out.\<close>

definition threshed_lognorm_cdf_cell :: "fval \<Rightarrow> fval \<Rightarrow> fval \<Rightarrow> fval \<Rightarrow> fval" where
  "threshed_lognorm_cdf_cell v mu var upper =
     (let denom = f_sub (lognorm_cdf_cell upper mu var) (Fin 0);
          out = f_div (lognorm_cdf_cell v mu var) denom;
          out = (if f_lt v (Fin (- 99999999)) then Fin 0 else out);
          out = (if f_gt v upper then Fin 1 else out);
          out = (if f_eq denom (Fin 0) then Fin 0 else out)
      in out)"

section \<open>Auxiliary lemmas\<close>

subsection \<open>Lists and masks\<close>

lemma length_gather_le: "length (gather m xs) \<le> length xs"
  by (induction m xs rule: gather.induct) auto

lemma gather_map: "map f (gather m xs) = gather m (map f xs)"
  by (induction m xs rule: gather.induct) auto

lemma gather_zip: "zip (gather m xs) (gather m ys) = gather m (zip xs ys)"
proof (induction m arbitrary: xs ys)
  case Nil
  then show ?case by simp
next
  case (Cons b m)
  show ?case
  proof (cases xs)
    case Nil
    then show ?thesis by simp
  next
    case xs: (Cons x xs')
    show ?thesis
    proof (cases ys)
      case Nil
      then show ?thesis by (simp add: xs)
    next
      case ys: (Cons y ys')
      show ?thesis using Cons.IH[of xs' ys'] by (simp add: xs ys)
    qed
  qed
qed

lemma gather_map2: "map2 f (gather m xs) (gather m ys) = gather m (map2 f xs ys)"
  by (simp add: gather_zip gather_map)

lemma length_scatter_add [simp]: "length (scatter_add m out vs) = length out"
  by (induction m out vs rule: scatter_add.induct) auto

lemma length_scatter_set [simp]: "length (scatter_set m out vs) = length out"
  by (induction m out vs rule: scatter_set.induct) auto

lemma nth_scatter_add_gather:
  "length m = length out \<Longrightarrow> length vs = length out \<Longrightarrow> i < length out \<Longrightarrow>
   scatter_add m out (gather m vs) ! i = (if m ! i then f_add (out ! i) (vs ! i) else out ! i)"
proof (induction m arbitrary: out vs i)
  case Nil
  then show ?case by simp
next
  case (Cons b m)
  then obtain x out' where out: "out = x # out'" by (cases out) auto
  from Cons.prems out obtain v vs' where vs: "vs = v # vs'" by (cases vs) auto
  show ?case
    using Cons.prems Cons.IH[of out' vs' "i - 1"]
    by (cases b; cases i) (simp_all add: out vs)
qed

lemma nth_scatter_set_gather:
  "length m = length out \<Longrightarrow> length vs = length out \<Longrightarrow> i < length out \<Longrightarrow>
   scatter_set m out (gather m vs) ! i = (if m ! i then vs ! i else out ! i)"
proof (induction m arbitrary: out vs i)
  case Nil
  then show ?case by simp
next
  case (Cons b m)
  then obtain x out' where out: "out = x # out'" by (cases out) auto
  from Cons.prems out obtain v vs' where vs: "vs = v # vs'" by (cases vs) auto
  show ?case
    using Cons.prems Cons.IH[of out' vs' "i - 1"]
    by (cases b; cases i) (simp_all add: out vs)
qed

lemma length_mask_upd [simp]: "length (mask_upd f m xs) = min (length m) (length xs)"
  by (simp add: mask_upd_def)

lemma nth_mask_upd:
  "i < length m \<Longrightarrow> i < length xs \<Longrightarrow>
   mask_upd f m xs ! i = (if m ! i then f (xs ! i) else xs ! i)"
  by (simp add: mask_upd_def)

subsection \<open>Constraint functions, cell by cell\<close>

lemma map2_same: "map2 f (map g xs) (map h xs) = map (\<lambda>x. f (g x) (h x)) xs"
  by (induction xs) auto

lemma map2_same_l: "map2 f (map g xs) xs = map (\<lambda>x. f (g x) x) xs"
  by (induction xs) auto

lemma map2_same_r: "map2 f xs (map h xs) = map (\<lambda>x. f x (h x)) xs"
  by (induction xs) auto

lemma one_plus_exp_pos: "0 < 1 + exp (z::real)"
  by (simp add: add_pos_pos)

lemma f_softplus_Fin:
  "0 < beta \<Longrightarrow> f_softplus beta (Fin y) =
     Fin (if 20 < y * beta then y else ln (1 + exp (y * beta)) / beta)"
  using one_plus_exp_pos[of "y * beta"] by (auto simp add: f_softplus_def f_gt_def)

lemma upper_thresh_constraint_False:
  "upper_thresh_constraint x thresh False beta =
     Inr (map (\<lambda>v. f_add (f_neg (f_softplus beta (f_add (f_neg v) (Fin thresh)))) (Fin thresh)) x)"
  by (simp add: upper_thresh_constraint_def t_sr_def comp_def)

lemma gp_upper_thresh_constraint_cells:
  "gp_upper_thresh_constraint x thresh beta = Inr (map (gp_shape_cell thresh beta) x)"
  unfolding gp_upper_thresh_constraint_def upper_thresh_constraint_False
  by (simp add: t_sr_def t_sl_def t_op_def comp_def map2_same map2_same_l map2_same_r Let_def gp_shape_cell_def
      del: f_add.simps f_mul.simps f_div.simps f_neg.simps)

lemma gp_shape_cell_Fin:
  assumes "0 < beta" "0 < thresh"
  shows "\<exists>y. gp_shape_cell thresh beta (Fin x) = Fin y \<and> y \<le> thresh \<and> (x < 0 \<longrightarrow> y = x)"
proof -
  define w where "w = min (max (x / thresh) 0) 1"
  have W: "f_mul (Fin (- 1)) (f_threshold (- 1) (- 1)
             (f_mul (Fin (- 1)) (f_threshold 0 0 (f_div (Fin x) (Fin thresh))))) = Fin w"
    using assms(2) by (auto simp add: f_threshold_def f_le_def w_def)
  have w01: "0 \<le> w" "w \<le> 1" by (simp_all add: w_def)
  have w0: "x < 0 \<Longrightarrow> w = 0"
    using assms(2) by (simp add: w_def max_def divide_le_0_iff)
  have w1: "thresh < x \<Longrightarrow> w = 1"
    using assms(2) by (simp add: w_def)
  define s where "s = (if 20 < (- x + thresh) * beta then - x + thresh
                       else ln (1 + exp ((- x + thresh) * beta)) / beta)"
  have S: "f_softplus beta (f_add (f_neg (Fin x)) (Fin thresh)) = Fin s"
    using f_softplus_Fin[OF assms(1)] by (simp add: s_def)
  have s_cases: "(s = thresh - x \<and> x < thresh) \<or> 0 < s"
  proof (cases "20 < (- x + thresh) * beta")
    case True
    then have "0 < (thresh - x) * beta" by simp
    then have "0 < thresh - x" using assms(1) by (simp add: zero_less_mult_iff)
    with True show ?thesis by (simp add: s_def)
  next
    case False
    have "0 < ln (1 + exp ((- x + thresh) * beta))"
      by (simp add: ln_gt_zero)
    then show ?thesis using False assms(1) by (simp add: s_def)
  qed
  define y where "y = w * (- s + thresh) + (1 - w) * x"
  have Y: "gp_shape_cell thresh beta (Fin x) = Fin y"
    unfolding gp_shape_cell_def W S by (simp add: y_def f_sub_def)
  have le: "y \<le> thresh"
    using s_cases
  proof
    assume a: "s = thresh - x \<and> x < thresh"
    then have "- s + thresh = x" by simp
    then have "y = w * x + (1 - w) * x" by (simp add: y_def)
    then have "y = x" by (simp add: algebra_simps)
    then show ?thesis using a by simp
  next
    assume sp: "0 < s"
    show ?thesis
    proof (cases "x \<le> thresh")
      case True
      have "w * (- s + thresh) \<le> w * thresh"
        using w01 sp by (intro mult_left_mono) simp_all
      moreover have "(1 - w) * x \<le> (1 - w) * thresh"
        using w01 True by (intro mult_left_mono) simp_all
      ultimately have "y \<le> w * thresh + (1 - w) * thresh"
        by (simp add: y_def)
      then show ?thesis by (simp add: algebra_simps)
    next
      case False
      then have "w = 1" using w1 by simp
      then show ?thesis using sp by (simp add: y_def)
    qed
  qed
  have "x < 0 \<longrightarrow> y = x" using w0 by (simp add: y_def)
  with Y le show ?thesis by blast
qed

lemma exp_30_gt: "1 + exp (20::real) < exp 30"
proof -
  have a: "(11::real) \<le> exp 10" using exp_ge_add_one_self[of "10::real"] by simp
  have b: "(1::real) \<le> exp 20" by simp
  have "exp (30::real) = exp 20 * exp 10" by (simp add: exp_add[symmetric])
  moreover have "exp (20::real) * 11 \<le> exp 20 * exp 10"
    using a by (intro mult_left_mono) simp_all
  ultimately have "exp (20::real) * 11 \<le> exp 30" by simp
  with b show ?thesis by linarith
qed

lemma upper_thresh_constraint_var:
  "upper_thresh_constraint var 30 True 1 = Inr (map var_cell var)"
  by (simp add: upper_thresh_constraint_def pos_constraint_def t_sr_def comp_def var_cell_def)

lemma var_cell_Fin: "\<exists>w. var_cell (Fin r) = Fin w \<and> 0 < w \<and> w < 30"
proof -
  define p where "p = exp r + 1 / 100"
  have p: "0 < p" by (simp add: p_def add_pos_pos)
  define s where "s = (if 20 < - p + 30 then - p + 30 else ln (1 + exp (- p + 30)))"
  have S: "f_softplus 1 (f_add (f_neg (f_add (f_exp (Fin r)) (Fin (1 / 100)))) (Fin 30)) = Fin s"
    using f_softplus_Fin[of 1 "- p + 30"] by (simp add: s_def p_def)
  have V: "var_cell (Fin r) = Fin (- s + 30)"
    unfolding var_cell_def S by simp
  have "0 < - s + 30 \<and> - s + 30 < 30"
  proof (cases "20 < - p + 30")
    case True
    then show ?thesis using p by (simp add: s_def)
  next
    case False
    then have y: "- p + 30 \<le> 20" by simp
    have pos: "0 < ln (1 + exp (- p + 30))" by (simp add: ln_gt_zero)
    have "1 + exp (- p + 30) \<le> 1 + exp 20" using y by simp
    also have "\<dots> < exp 30" by (rule exp_30_gt)
    finally have "ln (1 + exp (- p + 30)) < ln (exp 30)"
      using one_plus_exp_pos[of "- p + 30"] by (subst ln_less_cancel_iff) simp_all
    then have "ln (1 + exp (- p + 30)) < 30" by simp
    with pos False show ?thesis by (simp add: s_def)
  qed
  with V show ?thesis by blast
qed


subsection \<open>Arithmetic on cells, exceptions, in-place writes\<close>

lemma f_add_zero_right [simp]: "f_add x (Fin 0) = x"
  by (cases x) simp_all

lemma f_add_zero_left [simp]: "f_add (Fin 0) x = x"
  by (cases x) simp_all

lemma f_mul_commute: "f_mul a b = f_mul b a"
  by (cases a; cases b) simp_all

lemma map2_commute: "(\<And>a b. f a b = f b a) \<Longrightarrow> map2 f xs ys = map2 f ys xs"
proof (induction xs arbitrary: ys)
  case Nil
  then show ?case by simp
next
  case (Cons x xs)
  then show ?case by (cases ys) simp_all
qed

lemma t_op_f_mul_commute: "t_op f_mul xs ys = t_op f_mul ys xs"
  unfolding t_op_def by (rule map2_commute) (rule f_mul_commute)

lemma all_constraints_continuous:
  "all_constraints binaries gpd_stats main_stats maxis True ''lognormal'' (Some th) =
     (Some th, Inl TypeError)"
  by (simp add: all_constraints_def lognormal_constraint_def upper_thresh_constraint_def
      pos_constraint_def stack_def col0_def col1_def t_sr_def call_lognormal_def Let_def)

lemma all_constraints_continuous_never:
  "\<exists>e. snd (all_constraints binaries gpd_stats main_stats maxis True main_func thresholds) = Inl e"
proof (cases "main_func = ''lognormal''")
  case True
  show ?thesis
  proof (cases thresholds)
    case None
    then show ?thesis using True
      by (simp add: all_constraints_def lognormal_constraint_def upper_thresh_constraint_def
      pos_constraint_def stack_def col0_def col1_def t_sr_def call_lognormal_def Let_def)
  next
    case (Some th)
    then show ?thesis using True by (simp add: all_constraints_continuous)
  qed
next
  case False
  then show ?thesis by (simp add: all_constraints_def Let_def)
qed

lemma pearsonr_raises: "pearsonr depth a b = Inl RecursionError"
  by (induction depth) (simp_all add: Let_def)

lemma lognormal_fst:
  "fst (lognormal samples mu var) = map (\<lambda>x. if x = Fin 0 then Fin 10 else x) samples"
proof -
  have "mask_upd (\<lambda>x. f_add x (Fin 10)) (t_cmps f_eq samples 0) samples
        = map (\<lambda>x. if x = Fin 0 then Fin 10 else x) samples"
  proof (induction samples)
    case Nil
    then show ?case by (simp add: mask_upd_def t_cmps_def)
  next
    case (Cons x xs)
    then show ?case by (cases x) (simp_all add: mask_upd_def t_cmps_def)
  qed
  then show ?thesis by (simp add: lognormal_def Let_def)
qed

lemma lognormal_idem:
  "snd (lognormal (fst (lognormal samples mu var)) mu var) = snd (lognormal samples mu var)"
proof -
  let ?s = "mask_upd (\<lambda>x. f_add x (Fin 10)) (t_cmps f_eq samples 0) samples"
  have s: "?s = map (\<lambda>x. if x = Fin 0 then Fin 10 else x) samples"
    using lognormal_fst[of samples mu var] by (simp add: lognormal_def Let_def)
  have "mask_upd (\<lambda>x. f_add x (Fin 10)) (t_cmps f_eq ?s 0) ?s = ?s"
    unfolding s
  proof (induction samples)
    case Nil
    then show ?case by (simp add: mask_upd_def t_cmps_def)
  next
    case (Cons x xs)
    then show ?case by (cases x) (simp_all add: mask_upd_def t_cmps_def)
  qed
  then show ?thesis by (simp add: lognormal_def Let_def)
qed



subsection \<open>Tensor operations, cell by cell\<close>

lemma length_t_op [simp]: "length (t_op f xs ys) = min (length xs) (length ys)"
  by (simp add: t_op_def)
lemma length_t_sr [simp]: "length (t_sr f xs c) = length xs"
  by (simp add: t_sr_def)
lemma length_t_sl [simp]: "length (t_sl f c xs) = length xs"
  by (simp add: t_sl_def)
lemma length_t_cmp [simp]: "length (t_cmp p xs ys) = min (length xs) (length ys)"
  by (simp add: t_cmp_def)
lemma length_t_cmps [simp]: "length (t_cmps p xs c) = length xs"
  by (simp add: t_cmps_def)
lemma length_m_and [simp]: "length (m_and a b) = min (length a) (length b)"
  by (simp add: m_and_def)
lemma length_m_not [simp]: "length (m_not a) = length a"
  by (simp add: m_not_def)
lemma length_zeros_like [simp]: "length (zeros_like xs) = length xs"
  by (simp add: zeros_like_def)
lemma length_ones_like [simp]: "length (ones_like xs) = length xs"
  by (simp add: ones_like_def)
lemma length_full_like [simp]: "length (full_like xs c) = length xs"
  by (simp add: full_like_def)
lemma length_col0 [simp]: "length (col0 s) = length s"
  by (simp add: col0_def)
lemma length_col1 [simp]: "length (col1 s) = length s"
  by (simp add: col1_def)

lemma nth_t_op [simp]:
  "i < length xs \<Longrightarrow> i < length ys \<Longrightarrow> t_op f xs ys ! i = f (xs ! i) (ys ! i)"
  by (simp add: t_op_def)
lemma nth_t_sr [simp]: "i < length xs \<Longrightarrow> t_sr f xs c ! i = f (xs ! i) (Fin c)"
  by (simp add: t_sr_def)
lemma nth_t_sl [simp]: "i < length xs \<Longrightarrow> t_sl f c xs ! i = f (Fin c) (xs ! i)"
  by (simp add: t_sl_def)
lemma nth_t_cmp [simp]:
  "i < length xs \<Longrightarrow> i < length ys \<Longrightarrow> t_cmp p xs ys ! i = p (xs ! i) (ys ! i)"
  by (simp add: t_cmp_def)
lemma nth_t_cmps [simp]: "i < length xs \<Longrightarrow> t_cmps p xs c ! i = p (xs ! i) (Fin c)"
  by (simp add: t_cmps_def)
lemma nth_m_and [simp]:
  "i < length a \<Longrightarrow> i < length b \<Longrightarrow> m_and a b ! i = (a ! i \<and> b ! i)"
  by (simp add: m_and_def)
lemma nth_m_not [simp]: "i < length a \<Longrightarrow> m_not a ! i = (\<not> a ! i)"
  by (simp add: m_not_def)
lemma nth_zeros_like [simp]: "i < length xs \<Longrightarrow> zeros_like xs ! i = Fin 0"
  by (simp add: zeros_like_def)
lemma nth_ones_like [simp]: "i < length xs \<Longrightarrow> ones_like xs ! i = Fin 1"
  by (simp add: ones_like_def)
lemma nth_full_like [simp]: "i < length xs \<Longrightarrow> full_like xs c ! i = Fin c"
  by (simp add: full_like_def)

lemma gather_t_op: "t_op f (gather m xs) (gather m ys) = gather m (t_op f xs ys)"
  by (simp add: t_op_def gather_map2)
lemma gather_t_sr: "t_sr f (gather m xs) c = gather m (t_sr f xs c)"
  by (simp add: t_sr_def gather_map)
lemma gather_t_sl: "t_sl f c (gather m xs) = gather m (t_sl f c xs)"
  by (simp add: t_sl_def gather_map)
lemma gather_t_cmp: "t_cmp p (gather m xs) (gather m ys) = gather m (t_cmp p xs ys)"
  by (simp add: t_cmp_def gather_map2)
lemma gather_t_cmps: "t_cmps p (gather m xs) c = gather m (t_cmps p xs c)"
  by (simp add: t_cmps_def gather_map)
lemma gather_mask_upd: "mask_upd f (gather m k) (gather m xs) = gather m (mask_upd f k xs)"
  by (simp add: mask_upd_def gather_map2)
lemma gather_full_like: "full_like (gather m xs) c = gather m (full_like xs c)"
  by (simp add: full_like_def gather_map)
lemma gather_zeros_like: "zeros_like (gather m xs) = gather m (zeros_like xs)"
  by (simp add: zeros_like_def gather_map)

lemmas gather_push = gather_t_op gather_t_sr gather_t_sl gather_t_cmp gather_t_cmps
  gather_mask_upd gather_full_like gather_zeros_like gather_map

lemma length_gpd:
  "length xi = length raw \<Longrightarrow> length sigma = length raw \<Longrightarrow> length (gpd raw xi sigma) = length raw"
  by (simp add: gpd_def Let_def)

lemma nth_gpd:
  assumes "length xi = length raw" "length sigma = length raw" "i < length raw"
  shows "gpd raw xi sigma ! i = gpd_cell (raw ! i) (xi ! i) (sigma ! i)"
  using assms
  by (simp add: gpd_def Let_def gather_push nth_scatter_add_gather nth_mask_upd gpd_cell_def)

lemma length_lognorm_cdf:
  "length mu = length vals \<Longrightarrow> length var = length vals \<Longrightarrow>
   length (lognorm_cdf vals mu var) = length vals"
  by (simp add: lognorm_cdf_def)

lemma nth_lognorm_cdf:
  "length mu = length vals \<Longrightarrow> length var = length vals \<Longrightarrow> i < length vals \<Longrightarrow>
   lognorm_cdf vals mu var ! i = lognorm_cdf_cell (vals ! i) (mu ! i) (var ! i)"
  by (simp add: lognorm_cdf_def lognorm_cdf_cell_def)

lemma length_lognormal:
  "length mu = length samples \<Longrightarrow> length var = length samples \<Longrightarrow>
   length (snd (lognormal samples mu var)) = length samples"
  by (simp add: lognormal_def Let_def)

lemma nth_lognormal:
  "length mu = length samples \<Longrightarrow> length var = length samples \<Longrightarrow> i < length samples \<Longrightarrow>
   snd (lognormal samples mu var) ! i = lognormal_cell (samples ! i) (mu ! i) (var ! i)"
  by (simp add: lognormal_def Let_def lognormal_cell_def nth_mask_upd)

lemma length_threshed_lognorm:
  assumes "length mu = length samples" "length var = length samples"
    "length threshes = length samples"
  shows "length (snd (threshed_lognorm samples threshes mu var eps)) = length samples"
proof -
  obtain s' l where l: "lognormal samples mu var = (s', l)" by (cases "lognormal samples mu var")
  have len: "length l = length samples" using length_lognormal[of mu samples var] assms l by simp
  show ?thesis
    using assms len by (simp add: threshed_lognorm_def l length_lognorm_cdf)
qed

lemma nth_threshed_lognorm:
  assumes "length mu = length samples" "length var = length samples"
    "length threshes = length samples" "i < length samples"
  shows "snd (threshed_lognorm samples threshes mu var eps) ! i =
           threshed_lognorm_cell (samples ! i) (threshes ! i) (mu ! i) (var ! i) eps"
proof -
  obtain s' l where l: "lognormal samples mu var = (s', l)" by (cases "lognormal samples mu var")
  have len: "length l = length samples" using length_lognormal[of mu samples var] assms l by simp
  have nl: "l ! i = lognormal_cell (samples ! i) (mu ! i) (var ! i)"
    using nth_lognormal[of mu samples var i] assms l by simp
  show ?thesis
    using assms len nl
    by (simp add: threshed_lognorm_def l length_lognorm_cdf nth_lognorm_cdf threshed_lognorm_cell_def)
qed

subsection \<open>The log-likelihood, cell by cell\<close>

lemma f_add_NaN_right [simp]: "f_add x NaN = NaN"
  by (cases x) simp_all

lemma f_lt_NaN_right [simp]: "f_lt x NaN = False"
  by (cases x) simp_all

lemma f_eq_NaN_right [simp]: "f_eq x NaN = False"
  by (cases x) simp_all

lemma nth_nan_transfer:
  "length w = length x \<Longrightarrow> i < length x \<Longrightarrow>
   nan_transfer w x ! i = (if isnan (w ! i) then NaN else x ! i)"
  by (simp add: nan_transfer_def Let_def nth_mask_upd)

lemma length_nan_transfer:
  "length w = length x \<Longrightarrow> length (nan_transfer w x) = length x"
  by (simp add: nan_transfer_def Let_def)

lemma nth_nan_to_num:
  "i < length x \<Longrightarrow> nan_to_num x c ! i = (if isnan (x ! i) then Fin c else x ! i)"
  by (simp add: nan_to_num_def nth_mask_upd)

lemma length_nan_to_num: "length (nan_to_num x c) = length x"
  by (simp add: nan_to_num_def)

lemma loglik_zero_cells:
  assumes "length zero_probs = length samples" "i < length samples"
  shows "length (fst (loglik_zero samples zero_probs)) = length samples"
    and "length (snd (loglik_zero samples zero_probs)) = length samples"
    and "fst (loglik_zero samples zero_probs) ! i =
           (if isnan (samples ! i) then NaN
            else f_mul (of_bool_f (f_eq (samples ! i) (Fin 0))) (f_log (zero_probs ! i)))"
    and "snd (loglik_zero samples zero_probs) ! i =
           (if isnan (samples ! i) then NaN
            else f_mul (of_bool_f (f_ne (samples ! i) (Fin 0)))
                   (f_log (f_sub (Fin 1) (zero_probs ! i))))"
  using assms
  by (simp_all add: loglik_zero_def Let_def is_zero_def nth_mask_upd)

lemma loglik_above_thresh_cells:
  assumes "length threshes = length samples" "length p = length samples" "i < length samples"
  shows "length (fst (loglik_above_thresh samples threshes p)) = length samples"
    and "length (snd (loglik_above_thresh samples threshes p)) = length samples"
    and "fst (loglik_above_thresh samples threshes p) ! i =
           f_mul (of_bool_f (f_ge (samples ! i) (threshes ! i) \<and> f_gt (samples ! i) (Fin 0)))
             (f_log (p ! i))"
    and "snd (loglik_above_thresh samples threshes p) ! i =
           f_mul (of_bool_f (f_lt (samples ! i) (threshes ! i) \<and> f_gt (samples ! i) (Fin 0)))
             (f_log (f_sub (Fin 1) (p ! i)))"
  using assms
  by (simp_all add: loglik_above_thresh_def Let_def is_above_thresh_def)

lemma loglik_terms_cells:
  assumes "length gpd_stats = length samples" "length moderate_stats = length samples"
    "length zero_probs = length samples" "length excess_probs = length samples"
    "length threshes = length samples" "i < length samples"
  shows "\<exists>t1 t2 t3 t4 t5 t6.
     loglik_terms samples gpd_stats moderate_stats zero_probs excess_probs threshes ''lognormal''
       = Inr (t1, t2, t3, t4, t5, t6) \<and>
     length t1 = length samples \<and> length t2 = length samples \<and> length t3 = length samples \<and>
     length t4 = length samples \<and> length t5 = length samples \<and> length t6 = length samples \<and>
     t1 ! i = (if isnan (samples ! i) then NaN
               else f_mul (of_bool_f (f_eq (samples ! i) (Fin 0))) (f_log (zero_probs ! i))) \<and>
     t2 ! i = (if isnan (samples ! i) then NaN
               else f_mul (of_bool_f (f_ne (samples ! i) (Fin 0)))
                      (f_log (f_sub (Fin 1) (zero_probs ! i)))) \<and>
     t3 ! i = (if isnan (samples ! i) then NaN
               else f_mul (of_bool_f (f_lt (samples ! i) (threshes ! i) \<and> f_gt (samples ! i) (Fin 0)))
                      (f_log (f_sub (Fin 1) (excess_probs ! i)))) \<and>
     t4 ! i = (if f_gt (samples ! i) (Fin 0) \<and> \<not> f_gt (samples ! i) (threshes ! i)
               then threshed_lognorm_cell (samples ! i) (threshes ! i)
                      (fst (moderate_stats ! i)) (snd (moderate_stats ! i)) (1 / 1000000)
               else NaN) \<and>
     t5 ! i = (if isnan (samples ! i) then NaN
               else f_mul (of_bool_f (f_ge (samples ! i) (threshes ! i) \<and> f_gt (samples ! i) (Fin 0)))
                      (f_log (excess_probs ! i))) \<and>
     t6 ! i = (if f_gt (samples ! i) (threshes ! i)
               then gpd_cell (f_sub (samples ! i) (threshes ! i))
                      (fst (gpd_stats ! i)) (snd (gpd_stats ! i))
               else NaN)"
proof -
  let ?ex = "t_cmp f_gt samples threshes"
  let ?excesses = "mask_upd (\<lambda>x. f_div x (Fin 0)) (m_not ?ex)
      (scatter_add ?ex (zeros_like samples) (t_op f_sub (gather ?ex samples) (gather ?ex threshes)))"
  let ?nz = "m_and (t_cmps f_gt samples 0) (m_not ?ex)"
  let ?nonzeros = "scatter_add ?nz (zeros_like samples) (gather ?nz samples)"
  let ?raw_main = "snd (threshed_lognorm ?nonzeros threshes (col0 moderate_stats) (col1 moderate_stats) (1 / 1000000))"
  let ?main = "scatter_set (m_not ?nz) ?raw_main (t_sr f_div (zeros_like (gather (m_not ?nz) ?raw_main)) 0)"
  have len_ex: "length ?excesses = length samples" using assms by simp
  have nth_ex: "?excesses ! i = (if f_gt (samples ! i) (threshes ! i)
                                 then f_sub (samples ! i) (threshes ! i) else NaN)"
    using assms by (simp add: gather_push nth_scatter_add_gather nth_mask_upd)
  have len_nzs: "length ?nonzeros = length samples" by simp
  have nth_nzs: "?nonzeros ! i = (if f_gt (samples ! i) (Fin 0) \<and> \<not> f_gt (samples ! i) (threshes ! i)
                                  then samples ! i else Fin 0)"
    using assms by (simp add: nth_scatter_add_gather)
  have len_main0: "length ?raw_main = length samples"
    using assms by (simp add: length_threshed_lognorm)
  have nth_main0: "?raw_main ! i = threshed_lognorm_cell (?nonzeros ! i) (threshes ! i)
                      (fst (moderate_stats ! i)) (snd (moderate_stats ! i)) (1 / 1000000)"
    using assms by (simp add: nth_threshed_lognorm col0_def col1_def)
  have len_main: "length ?main = length samples" using len_main0 by simp
  have nth_main: "?main ! i = (if f_gt (samples ! i) (Fin 0) \<and> \<not> f_gt (samples ! i) (threshes ! i)
               then threshed_lognorm_cell (samples ! i) (threshes ! i)
                      (fst (moderate_stats ! i)) (snd (moderate_stats ! i)) (1 / 1000000)
               else NaN)"
    using assms len_main0 nth_main0 nth_nzs
    by (simp add: gather_push nth_scatter_set_gather del: length_scatter_add)
  have len_gpd: "length (gpd ?excesses (col0 gpd_stats) (col1 gpd_stats)) = length samples"
    using assms len_ex by (simp add: length_gpd del: length_mask_upd)
  have nth_gpd': "gpd ?excesses (col0 gpd_stats) (col1 gpd_stats) ! i =
                   gpd_cell (?excesses ! i) (fst (gpd_stats ! i)) (snd (gpd_stats ! i))"
    using assms len_ex by (simp add: nth_gpd col0_def col1_def del: length_mask_upd)
  have nan_ex: "isnan (samples ! i) \<Longrightarrow> \<not> f_gt (samples ! i) (threshes ! i)"
    by (cases "samples ! i") (simp_all add: f_gt_def)
  have nan_gt0: "isnan (samples ! i) \<Longrightarrow> \<not> f_gt (samples ! i) (Fin 0)"
    by (cases "samples ! i") (simp_all add: f_gt_def)
  have gpd_nan: "gpd_cell NaN (fst (gpd_stats ! i)) (snd (gpd_stats ! i)) = NaN"
    by (simp add: gpd_cell_def)
  show ?thesis
    using assms len_ex len_main len_gpd nth_main nth_gpd' nth_ex nan_ex nan_gt0 gpd_nan
    by (simp add: loglik_terms_def Let_def split_beta loglik_zero_cells loglik_above_thresh_cells
        nth_nan_transfer length_nan_transfer
        del: length_mask_upd length_scatter_add length_scatter_set)
qed

lemma f_add_Fin_not_nan_left: "\<not> isnan x \<Longrightarrow> \<not> isnan (f_add (Fin a) x)"
  by (cases x) simp_all

lemma f_add_Fin_not_nan_right: "\<not> isnan x \<Longrightarrow> \<not> isnan (f_add x (Fin a))"
  by (cases x) simp_all

lemma not_nan_nan_to_num: "i < length x \<Longrightarrow> \<not> isnan (nan_to_num x c ! i)"
  by (cases "x ! i") (simp_all add: nth_nan_to_num)

lemma f_log_prob: "0 < p \<Longrightarrow> f_log (Fin p) = Fin (ln p)"
  by simp


subsection \<open>The cumulative distribution, cell by cell\<close>

lemma length_gpd_cdf:
  "length xi = length vals \<Longrightarrow> length sigma = length vals \<Longrightarrow> length thresh = length vals \<Longrightarrow>
   length (gpd_cdf vals xi sigma thresh) = length vals"
  by (simp add: gpd_cdf_def)

lemma nth_gpd_cdf:
  "length xi = length vals \<Longrightarrow> length sigma = length vals \<Longrightarrow> length thresh = length vals \<Longrightarrow>
   i < length vals \<Longrightarrow>
   gpd_cdf vals xi sigma thresh ! i = gpd_cdf_cell (vals ! i) (xi ! i) (sigma ! i) (thresh ! i)"
  by (simp add: gpd_cdf_def gpd_cdf_cell_def)

lemma gather_lognorm_cdf:
  "lognorm_cdf (gather m vals) (gather m mu) (gather m var) = gather m (lognorm_cdf vals mu var)"
  by (simp add: lognorm_cdf_def gather_push)

lemma gather_threshed_lognorm_cdf:
  "threshed_lognorm_cdf (gather m vals) (gather m mu) (gather m var) None (Some (gather m upper))
   = gather m (threshed_lognorm_cdf vals mu var None (Some upper))"
  by (simp add: threshed_lognorm_cdf_def Let_def gather_lognorm_cdf gather_push)

lemma gather_gpd_cdf:
  "gpd_cdf (gather m vals) (gather m xi) (gather m sigma) (gather m thresh)
   = gather m (gpd_cdf vals xi sigma thresh)"
  by (simp add: gpd_cdf_def gather_push)

lemma length_threshed_lognorm_cdf:
  "length mu = length vals \<Longrightarrow> length var = length vals \<Longrightarrow> length upper = length vals \<Longrightarrow>
   length (threshed_lognorm_cdf vals mu var None (Some upper)) = length vals"
  by (simp add: threshed_lognorm_cdf_def Let_def length_lognorm_cdf)

lemma nth_threshed_lognorm_cdf:
  "length mu = length vals \<Longrightarrow> length var = length vals \<Longrightarrow> length upper = length vals \<Longrightarrow>
   i < length vals \<Longrightarrow>
   threshed_lognorm_cdf vals mu var None (Some upper) ! i =
     threshed_lognorm_cdf_cell (vals ! i) (mu ! i) (var ! i) (upper ! i)"
  by (simp add: threshed_lognorm_cdf_def Let_def length_lognorm_cdf nth_lognorm_cdf
      nth_mask_upd threshed_lognorm_cdf_cell_def)

lemma all_cdf_cells:
  assumes "length gpd_stats = length samples" "length moderate_stats = length samples"
    "length zero_probs = length samples" "length excess_probs = length samples"
    "length effective_threshes = length samples" "length actual_threshes = length samples"
    "i < length samples"
  shows "\<exists>r. all_cdf samples gpd_stats moderate_stats zero_probs excess_probs effective_threshes
               actual_threshes ''lognormal'' = Inr r \<and> length r = length samples \<and>
     r ! i =
       (let out = Fin 0;
            out = (if f_ge (samples ! i) (Fin 0) then f_add out (zero_probs ! i) else out);
            out = (if f_gt (samples ! i) (Fin 0)
                   then f_add out
                          (f_mul (f_mul (f_sub (Fin 1) (zero_probs ! i))
                                    (f_sub (Fin 1) (excess_probs ! i)))
                             (threshed_lognorm_cdf_cell (samples ! i) (fst (moderate_stats ! i))
                                (snd (moderate_stats ! i)) (effective_threshes ! i)))
                   else out);
            out = (if f_gt (samples ! i) (effective_threshes ! i)
                   then f_add out
                          (f_mul (f_mul (f_sub (Fin 1) (zero_probs ! i)) (excess_probs ! i))
                             (gpd_cdf_cell (samples ! i) (fst (gpd_stats ! i))
                                (snd (gpd_stats ! i)) (actual_threshes ! i)))
                   else out)
        in out)"
  using assms
  by (simp add: all_cdf_def Let_def gather_threshed_lognorm_cdf gather_gpd_cdf gather_push
      nth_scatter_add_gather length_threshed_lognorm_cdf nth_threshed_lognorm_cdf
      length_gpd_cdf nth_gpd_cdf col0_def col1_def)

subsection \<open>The variance constraint at the special values\<close>

lemma var_cell_NaN: "var_cell NaN = NaN"
  by (simp add: var_cell_def f_softplus_def f_gt_def)

lemma var_cell_NegInf: "var_cell NegInf = Fin (1 / 100)"
  by (simp add: var_cell_def f_softplus_def f_gt_def)

lemma var_cell_PosInf: "var_cell PosInf = Fin 30"
  by (simp add: var_cell_def f_softplus_def f_gt_def)

lemma var_cell_range:
  "(isnan v \<longrightarrow> isnan (var_cell v)) \<and>
   (\<not> isnan v \<longrightarrow> (\<exists>w. var_cell v = Fin w \<and> 0 < w \<and> w \<le> 30 \<and> (v \<noteq> PosInf \<longrightarrow> w < 30)))"
proof (cases v)
  case NaN
  then show ?thesis by (simp add: var_cell_NaN)
next
  case NegInf
  have "\<exists>w. var_cell NegInf = Fin w \<and> 0 < w \<and> w \<le> 30 \<and> w < 30"
    by (rule exI[of _ "1 / 100"]) (simp add: var_cell_NegInf)
  then obtain w where w: "var_cell NegInf = Fin w" "0 < w" "w \<le> 30" "w < 30" by blast
  have "\<not> isnan NegInf" by simp
  then show ?thesis unfolding NegInf using w by blast
next
  case (Fin r)
  then show ?thesis using var_cell_Fin[of r] by auto
next
  case PosInf
  then show ?thesis by (simp add: var_cell_PosInf)
qed


subsection \<open>Comparisons\<close>

lemma f_lt_asym: "f_lt a b \<Longrightarrow> \<not> f_lt b a"
  by (cases a; cases b) simp_all

lemma f_eq_not_lt: "f_eq a b \<Longrightarrow> \<not> f_lt b a \<and> \<not> f_lt a b"
  by (cases a; cases b) simp_all

lemma f_eq_sym: "f_eq a b = f_eq b a"
  by (cases a; cases b) auto

lemma f_ge_iff: "f_ge a b \<longleftrightarrow> f_gt a b \<or> f_eq a b"
  using f_eq_sym[of a b] by (simp add: f_ge_def f_le_def f_gt_def)


subsection \<open>Broadcasting and class labels\<close>

lemma prod_list_pad_shape [simp]: "prod_list (pad_shape r s) = prod_list s"
  by (simp add: pad_shape_def)

lemma pad_shape_same [simp]: "length s \<le> r \<Longrightarrow> r = length s \<Longrightarrow> pad_shape r s = s"
  by (simp add: pad_shape_def)

lemma dims_expand_to_broadcastable: "dims_expand_to s s' \<Longrightarrow> dims_broadcastable s s'"
  by (induction s s' rule: dims_expand_to.induct) auto

lemma bidx_in_range:
  "dims_expand_to s s' \<Longrightarrow> i < prod_list s \<Longrightarrow> bidx s s' i < prod_list s'"
proof (induction s s' arbitrary: i rule: dims_expand_to.induct)
  case 1
  then show ?case by simp
next
  case (2 n s m s')
  from "2.prems" have ex: "dims_expand_to s s'" and m: "m = n \<or> m = 1" by simp_all
  from "2.prems" have i: "i < n * prod_list s" by simp
  then have pos: "0 < prod_list s" by (cases "prod_list s = 0") simp_all
  then have r: "i mod prod_list s < prod_list s" by simp
  have b: "bidx s s' (i mod prod_list s) < prod_list s'" using "2.IH"[OF ex r] .
  show ?case
  proof (cases "m = 1")
    case True
    then show ?thesis using b by simp
  next
    case False
    then have mn: "m = n" using m by simp
    have q: "i div prod_list s < n" using i pos by (simp add: less_mult_imp_div_less)
    have "(i div prod_list s) * prod_list s' + bidx s s' (i mod prod_list s)
            < (i div prod_list s) * prod_list s' + prod_list s'"
      using b by simp
    also have "\<dots> = (Suc (i div prod_list s)) * prod_list s'" by simp
    also have "\<dots> \<le> n * prod_list s'" using q by (intro mult_le_mono1) simp
    finally show ?thesis using False mn by simp
  qed
qed simp_all

lemma class_labels_cell:
  assumes "well_shaped y" "well_shaped threshes"
    "length (shape threshes) \<le> length (shape y)"
    "dims_expand_to (shape y) (pad_shape (length (shape y)) (shape threshes))"
  shows "\<exists>labels. snd (compute_class_labels y threshes) = Inr labels \<and>
           shape labels = shape y \<and> length (cells labels) = length (cells y) \<and>
           (\<forall>i<length (cells y).
              bidx (shape y) (pad_shape (length (shape y)) (shape threshes)) i
                < length (cells threshes) \<and>
              cells labels ! i =
                (if isnan (cells y ! i) then NaN
                 else if f_gt (cells y ! i)
                           (cells threshes !
                              bidx (shape y) (pad_shape (length (shape y)) (shape threshes)) i)
                      then Fin 2
                 else if cells y ! i = Fin 0 then Fin 0
                 else Fin 1))"
proof -
  let ?st = "pad_shape (length (shape y)) (shape threshes)"
  let ?th = "map (\<lambda>i. cells threshes ! bidx (shape y) ?st i) [0..<prod_list (shape y)]"
  let ?y' = "mask_upd (\<lambda>_. Fin 0) (map isnan (cells y)) (cells y)"
  let ?labels = "mask_upd (\<lambda>_. NaN) (map isnan (cells y))
     (mask_upd (\<lambda>_. Fin 2) (t_cmp f_gt ?y' ?th)
        (mask_upd (\<lambda>_. Fin 0) (t_cmps f_eq ?y' 0) (ones_like (cells y))))"
  have mx: "max (length (shape y)) (length (shape threshes)) = length (shape y)"
    using assms(3) by simp
  have py: "pad_shape (length (shape y)) (shape y) = shape y" by (simp add: pad_shape_def)
  have bc: "dims_broadcastable (shape y) ?st"
    using assms(4) by (rule dims_expand_to_broadcastable)
  have res: "snd (compute_class_labels y threshes) = Inr \<lparr>shape = shape y, cells = ?labels\<rparr>"
    using assms(3,4) bc by (simp add: compute_class_labels_def Let_def mx py)
  have ly: "length (cells y) = prod_list (shape y)" using assms(1) by (simp add: well_shaped_def)
  have lt: "length (cells threshes) = prod_list (shape threshes)"
    using assms(2) by (simp add: well_shaped_def)
  have len: "length ?labels = length (cells y)"
    by (simp add: mask_upd_def t_cmp_def t_cmps_def ones_like_def ly)
  have cell: "bidx (shape y) ?st i < length (cells threshes) \<and>
      ?labels ! i =
        (if isnan (cells y ! i) then NaN
         else if f_gt (cells y ! i) (cells threshes ! bidx (shape y) ?st i) then Fin 2
         else if cells y ! i = Fin 0 then Fin 0
         else Fin 1)"
    if i: "i < length (cells y)" for i
  proof -
    have r: "bidx (shape y) ?st i < length (cells threshes)"
      using bidx_in_range[OF assms(4), of i] i ly lt by simp
    have "?labels ! i =
        (if isnan (cells y ! i) then NaN
         else if f_gt (cells y ! i) (cells threshes ! bidx (shape y) ?st i) then Fin 2
         else if cells y ! i = Fin 0 then Fin 0
         else Fin 1)"
      using i ly
      by (cases "cells y ! i")
         (simp_all add: mask_upd_def t_cmp_def t_cmps_def ones_like_def f_gt_def)
    with r show ?thesis by simp
  qed
  show ?thesis
    unfolding res using len cell by simp
qed

section \<open>The claims\<close>

text \<open>
  Claim C4. For every finite input \<open>x\<close>, the constrained GP shape computed by
  \<open>gp_upper_thresh_constraint\<close> with threshold 0.9 (and any positive sharpness, 5 in
  \<open>gp_constraint2\<close>) is a finite number that is at most 0.9, and it is \<open>x\<close> itself
  whenever \<open>x\<close> is negative.
\<close>

theorem gp_upper_thresh_constraint_bound:
  assumes "0 < beta" and "i < length xi" and "xi ! i = Fin x"
  shows "\<exists>r y. gp_upper_thresh_constraint xi (9 / 10) beta = Inr r \<and> length r = length xi \<and>
           r ! i = Fin y \<and> y \<le> 9 / 10 \<and> (x < 0 \<longrightarrow> y = x)"
  using gp_shape_cell_Fin[OF assms(1), of "9 / 10" x] assms(2,3)
  by (simp add: gp_upper_thresh_constraint_cells)

theorem gp_upper_thresh_constraint_bound_witness:
  "\<exists>r y. gp_upper_thresh_constraint [Fin (- 3), Fin 7] (9 / 10) 5 = Inr r \<and> length r = 2 \<and>
     r ! 0 = Fin y \<and> y \<le> 9 / 10 \<and> y = - 3"
  using gp_upper_thresh_constraint_bound[of 5 0 "[Fin (- 3), Fin 7]" "- 3"]
  by (simp add: numeral_2_eq_2)

text \<open>
  Claim C1. The claim has two halves. The first holds in the code: for arrays of one shape
  and a cell whose two gate probabilities lie strictly between 0 and 1, the total of
  \<open>loglik\<close> at the cell is the sum of the six terms after \<open>nan_to_num\<close>, with NaN put
  back where the sample is NaN, and it is NaN exactly when the sample is NaN. The second
  half says that every term that does not apply to a cell contributes 0. With excess
  defined by strict \<open>>\<close>, that holds for the zero gate, the non-zero gate, the non-excess
  gate, the moderate density and the GP density, and for the excess gate at every cell
  that is not exactly at its threshold. At a positive cell equal to its threshold the
  excess gate does not apply, and the code adds \<open>log(excessProb)\<close>, which is not 0:
  \<open>is_above_thresh\<close> compares with \<open>>=\<close>. The theorem gives the value of each of the
  six terms at the cell.
\<close>

theorem loglik_excess_gate_at_tie:
  assumes "length gpd_stats = length samples" "length moderate_stats = length samples"
    "length zero_probs = length samples" "length excess_probs = length samples"
    "length threshes = length samples" "i < length samples"
    and "zero_probs ! i = Fin pz" "0 < pz" "pz < 1"
    and "excess_probs ! i = Fin pe" "0 < pe" "pe < 1"
  shows "\<exists>r t1 t2 t3 t4 t5 t6.
     loglik samples gpd_stats moderate_stats zero_probs excess_probs threshes ''lognormal'' = Inr r \<and>
     loglik_terms samples gpd_stats moderate_stats zero_probs excess_probs threshes ''lognormal''
       = Inr (t1, t2, t3, t4, t5, t6) \<and>
     length r = length samples \<and>
     r ! i = (if isnan (samples ! i) then NaN
              else f_add (f_add (f_add (f_add (f_add (nan_to_num t1 0 ! i) (nan_to_num t2 0 ! i))
                     (nan_to_num t3 0 ! i)) (nan_to_num t4 0 ! i)) (nan_to_num t5 0 ! i))
                     (nan_to_num t6 0 ! i)) \<and>
     (isnan (r ! i) \<longleftrightarrow> isnan (samples ! i)) \<and>
     t1 ! i = (if isnan (samples ! i) then NaN
               else f_mul (of_bool_f (f_eq (samples ! i) (Fin 0))) (Fin (ln pz))) \<and>
     t2 ! i = (if isnan (samples ! i) then NaN
               else f_mul (of_bool_f (f_ne (samples ! i) (Fin 0))) (Fin (ln (1 - pz)))) \<and>
     t3 ! i = (if isnan (samples ! i) then NaN
               else f_mul (of_bool_f (f_lt (samples ! i) (threshes ! i) \<and> f_gt (samples ! i) (Fin 0)))
                      (Fin (ln (1 - pe)))) \<and>
     t4 ! i = (if f_gt (samples ! i) (Fin 0) \<and> \<not> f_gt (samples ! i) (threshes ! i)
               then threshed_lognorm_cell (samples ! i) (threshes ! i)
                      (fst (moderate_stats ! i)) (snd (moderate_stats ! i)) (1 / 1000000)
               else NaN) \<and>
     t5 ! i = (if isnan (samples ! i) then NaN
               else f_mul (of_bool_f (f_ge (samples ! i) (threshes ! i) \<and> f_gt (samples ! i) (Fin 0)))
                      (Fin (ln pe))) \<and>
     t6 ! i = (if f_gt (samples ! i) (threshes ! i)
               then gpd_cell (f_sub (samples ! i) (threshes ! i))
                      (fst (gpd_stats ! i)) (snd (gpd_stats ! i))
               else NaN) \<and>
     (\<not> f_eq (samples ! i) (Fin 0) \<longrightarrow> nan_to_num t1 0 ! i = Fin 0) \<and>
     (\<not> f_ne (samples ! i) (Fin 0) \<or> isnan (samples ! i) \<longrightarrow> nan_to_num t2 0 ! i = Fin 0) \<and>
     (f_gt (samples ! i) (threshes ! i) \<or> \<not> f_gt (samples ! i) (Fin 0) \<longrightarrow>
        nan_to_num t3 0 ! i = Fin 0) \<and>
     (\<not> (f_gt (samples ! i) (Fin 0) \<and> \<not> f_gt (samples ! i) (threshes ! i)) \<longrightarrow>
        nan_to_num t4 0 ! i = Fin 0) \<and>
     (\<not> f_gt (samples ! i) (threshes ! i) \<longrightarrow> nan_to_num t6 0 ! i = Fin 0) \<and>
     (\<not> f_gt (samples ! i) (threshes ! i) \<and>
      \<not> (f_eq (samples ! i) (threshes ! i) \<and> f_gt (samples ! i) (Fin 0)) \<longrightarrow>
        nan_to_num t5 0 ! i = Fin 0) \<and>
     (f_eq (samples ! i) (threshes ! i) \<and> f_gt (samples ! i) (Fin 0) \<longrightarrow>
        \<not> f_gt (samples ! i) (threshes ! i) \<and> nan_to_num t5 0 ! i = Fin (ln pe) \<and> ln pe < 0)"
proof -
  let ?s = "samples ! i" and ?t = "threshes ! i"
  from loglik_terms_cells[OF assms(1-6)]
  obtain t1 t2 t3 t4 t5 t6 where
    terms: "loglik_terms samples gpd_stats moderate_stats zero_probs excess_probs threshes
              ''lognormal'' = Inr (t1, t2, t3, t4, t5, t6)"
    and len: "length t1 = length samples" "length t2 = length samples"
      "length t3 = length samples" "length t4 = length samples"
      "length t5 = length samples" "length t6 = length samples"
    and n1': "t1 ! i = (if isnan ?s then NaN
               else f_mul (of_bool_f (f_eq ?s (Fin 0))) (f_log (zero_probs ! i)))"
    and n2': "t2 ! i = (if isnan ?s then NaN
               else f_mul (of_bool_f (f_ne ?s (Fin 0))) (f_log (f_sub (Fin 1) (zero_probs ! i))))"
    and n3': "t3 ! i = (if isnan ?s then NaN
               else f_mul (of_bool_f (f_lt ?s ?t \<and> f_gt ?s (Fin 0)))
                      (f_log (f_sub (Fin 1) (excess_probs ! i))))"
    and n4: "t4 ! i = (if f_gt ?s (Fin 0) \<and> \<not> f_gt ?s ?t
               then threshed_lognorm_cell ?s ?t
                      (fst (moderate_stats ! i)) (snd (moderate_stats ! i)) (1 / 1000000)
               else NaN)"
    and n5': "t5 ! i = (if isnan ?s then NaN
               else f_mul (of_bool_f (f_ge ?s ?t \<and> f_gt ?s (Fin 0))) (f_log (excess_probs ! i)))"
    and n6: "t6 ! i = (if f_gt ?s ?t
               then gpd_cell (f_sub ?s ?t) (fst (gpd_stats ! i)) (snd (gpd_stats ! i))
               else NaN)"
    by blast
  have n1: "t1 ! i = (if isnan ?s then NaN
               else f_mul (of_bool_f (f_eq ?s (Fin 0))) (Fin (ln pz)))"
    using n1' assms(7,8) by simp
  have n2: "t2 ! i = (if isnan ?s then NaN
               else f_mul (of_bool_f (f_ne ?s (Fin 0))) (Fin (ln (1 - pz))))"
    using n2' assms(7,9) by (simp add: f_sub_def)
  have n3: "t3 ! i = (if isnan ?s then NaN
               else f_mul (of_bool_f (f_lt ?s ?t \<and> f_gt ?s (Fin 0))) (Fin (ln (1 - pe))))"
    using n3' assms(10,12) by (simp add: f_sub_def)
  have n5: "t5 ! i = (if isnan ?s then NaN
               else f_mul (of_bool_f (f_ge ?s ?t \<and> f_gt ?s (Fin 0))) (Fin (ln pe)))"
    using n5' assms(10,11) by simp
  let ?T1 = "nan_to_num t1 0 ! i" and ?T2 = "nan_to_num t2 0 ! i"
  let ?T3 = "nan_to_num t3 0 ! i" and ?T4 = "nan_to_num t4 0 ! i"
  let ?T5 = "nan_to_num t5 0 ! i" and ?T6 = "nan_to_num t6 0 ! i"
  have il: "i < length t1" "i < length t2" "i < length t3" "i < length t4" "i < length t5"
    "i < length t6"
    using len assms(6) by simp_all
  have nn: "\<not> isnan ?T4" "\<not> isnan ?T6"
    using il by (simp_all add: not_nan_nan_to_num)
  have F1: "\<exists>a. ?T1 = Fin a"
    using il(1) n1 by (simp add: nth_nan_to_num of_bool_f_def)
  have F2: "\<exists>a. ?T2 = Fin a"
    using il(2) n2 by (simp add: nth_nan_to_num of_bool_f_def)
  have F3: "\<exists>a. ?T3 = Fin a"
    using il(3) n3 by (simp add: nth_nan_to_num of_bool_f_def)
  have F5: "\<exists>a. ?T5 = Fin a"
    using il(5) n5 by (simp add: nth_nan_to_num of_bool_f_def)
  have Z1: "\<not> f_eq ?s (Fin 0) \<longrightarrow> ?T1 = Fin 0"
    using il(1) n1 by (simp add: nth_nan_to_num of_bool_f_def)
  have Z2: "\<not> f_ne ?s (Fin 0) \<or> isnan ?s \<longrightarrow> ?T2 = Fin 0"
    using il(2) n2 by (simp add: nth_nan_to_num of_bool_f_def)
  have Z3: "f_gt ?s ?t \<or> \<not> f_gt ?s (Fin 0) \<longrightarrow> ?T3 = Fin 0"
    using il(3) n3 f_lt_asym[of ?s ?t] by (auto simp add: nth_nan_to_num of_bool_f_def f_gt_def)
  have Z4: "\<not> (f_gt ?s (Fin 0) \<and> \<not> f_gt ?s ?t) \<longrightarrow> ?T4 = Fin 0"
    using il(4) n4 by (simp add: nth_nan_to_num)
  have Z6: "\<not> f_gt ?s ?t \<longrightarrow> ?T6 = Fin 0"
    using il(6) n6 by (simp add: nth_nan_to_num)
  have Z5: "\<not> f_gt ?s ?t \<and> \<not> (f_eq ?s ?t \<and> f_gt ?s (Fin 0)) \<longrightarrow> ?T5 = Fin 0"
    using il(5) n5 by (auto simp add: nth_nan_to_num of_bool_f_def f_ge_iff)
  have lnpe: "ln pe < 0" using assms(11,12) by simp
  have notnan_eq: "f_eq ?s ?t \<Longrightarrow> \<not> isnan ?s" by (cases ?s) simp_all
  have V5: "f_eq ?s ?t \<and> f_gt ?s (Fin 0) \<longrightarrow>
              \<not> f_gt ?s ?t \<and> ?T5 = Fin (ln pe) \<and> ln pe < 0"
    using il(5) n5 lnpe notnan_eq f_eq_not_lt[of ?s ?t]
    by (auto simp add: nth_nan_to_num of_bool_f_def f_ge_iff f_gt_def)
  let ?total = "f_add (f_add (f_add (f_add (f_add ?T1 ?T2) ?T3) ?T4) ?T5) ?T6"
  have total: "\<not> isnan ?total"
  proof (cases "f_gt ?s ?t")
    case True
    then have "?T4 = Fin 0" using Z4 by simp
    then obtain a where "f_add (f_add (f_add (f_add ?T1 ?T2) ?T3) ?T4) ?T5 = Fin a"
      using F1 F2 F3 F5 by auto
    then show ?thesis using nn(2) by (simp add: f_add_Fin_not_nan_left)
  next
    case False
    then have T6: "?T6 = Fin 0" using Z6 by simp
    obtain a where a: "f_add (f_add ?T1 ?T2) ?T3 = Fin a" using F1 F2 F3 by auto
    obtain b where b: "?T5 = Fin b" using F5 by auto
    have "\<not> isnan (f_add (Fin a) ?T4)" using nn(1) by (rule f_add_Fin_not_nan_left)
    then have "\<not> isnan (f_add (f_add (Fin a) ?T4) (Fin b))" by (rule f_add_Fin_not_nan_right)
    then show ?thesis by (simp add: a b T6)
  qed
  let ?r = "mask_upd (\<lambda>x. f_add x NaN) (map isnan samples)
      (t_op f_add (t_op f_add (t_op f_add (t_op f_add (t_op f_add (nan_to_num t1 0)
         (nan_to_num t2 0)) (nan_to_num t3 0)) (nan_to_num t4 0)) (nan_to_num t5 0))
         (nan_to_num t6 0))"
  have r: "loglik samples gpd_stats moderate_stats zero_probs excess_probs threshes ''lognormal''
             = Inr ?r"
    by (simp add: loglik_def terms Let_def)
  have lr: "length ?r = length samples"
    using len by (simp add: length_nan_to_num)
  have ri: "?r ! i = (if isnan ?s then NaN else ?total)"
    using len assms(6) by (simp add: nth_mask_upd length_nan_to_num)
  have iff: "isnan (?r ! i) \<longleftrightarrow> isnan ?s"
    unfolding ri using total by simp
  show ?thesis
    using r terms lr ri iff n1 n2 n3 n4 n5 n6 Z1 Z2 Z3 Z4 Z6 Z5 V5 by blast
qed

theorem loglik_excess_gate_at_tie_witness:
  "\<exists>r t1 t2 t3 t4 t5 t6.
     loglik [Fin 5] [(Fin (1 / 10), Fin 2)] [(Fin 1, Fin 1)] [Fin (3 / 10)] [Fin (1 / 5)]
       [Fin 5] ''lognormal'' = Inr r \<and>
     loglik_terms [Fin 5] [(Fin (1 / 10), Fin 2)] [(Fin 1, Fin 1)] [Fin (3 / 10)] [Fin (1 / 5)]
       [Fin 5] ''lognormal'' = Inr (t1, t2, t3, t4, t5, t6) \<and>
     \<not> isnan (r ! 0) \<and> \<not> f_gt (Fin 5) (Fin 5) \<and> nan_to_num t5 0 ! 0 = Fin (ln (1 / 5)) \<and>
     ln (1 / 5 :: real) < 0"
  using loglik_excess_gate_at_tie[of "[(Fin (1 / 10), Fin 2)]" "[Fin 5]" "[(Fin 1, Fin 1)]"
      "[Fin (3 / 10)]" "[Fin (1 / 5)]" "[Fin 5]" 0 "3 / 10" "1 / 5"]
  by (auto simp add: f_gt_def)

text \<open>
  Claim C2. The claim says that a sample equal to its positive threshold gets the
  non-excess gate term and not the excess gate term. The code gives such a cell the excess
  gate term \<open>log(excessProb)\<close> and a zero non-excess gate term, since \<open>is_above_thresh\<close>
  compares with \<open>>=\<close>, together with the moderate density and no GP density, since
  \<open>loglik\<close> itself compares with \<open>>\<close>.
\<close>

theorem loglik_threshold_tie:
  assumes "length gpd_stats = length samples" "length moderate_stats = length samples"
    "length zero_probs = length samples" "length excess_probs = length samples"
    "length threshes = length samples" "i < length samples"
    and "samples ! i = Fin c" "threshes ! i = Fin c" "0 < c"
    and "excess_probs ! i = Fin pe" "0 < pe" "pe < 1"
  shows "\<exists>t1 t2 t3 t4 t5 t6.
     loglik_terms samples gpd_stats moderate_stats zero_probs excess_probs threshes ''lognormal''
       = Inr (t1, t2, t3, t4, t5, t6) \<and>
     t3 ! i = Fin 0 \<and>
     t4 ! i = threshed_lognorm_cell (Fin c) (Fin c) (fst (moderate_stats ! i))
                (snd (moderate_stats ! i)) (1 / 1000000) \<and>
     t5 ! i = Fin (ln pe) \<and>
     t6 ! i = NaN"
proof -
  from loglik_terms_cells[OF assms(1-6)]
  obtain t1 t2 t3 t4 t5 t6 where
    terms: "loglik_terms samples gpd_stats moderate_stats zero_probs excess_probs threshes
              ''lognormal'' = Inr (t1, t2, t3, t4, t5, t6)"
    and n3: "t3 ! i = (if isnan (samples ! i) then NaN
               else f_mul (of_bool_f (f_lt (samples ! i) (threshes ! i) \<and> f_gt (samples ! i) (Fin 0)))
                      (f_log (f_sub (Fin 1) (excess_probs ! i))))"
    and n4: "t4 ! i = (if f_gt (samples ! i) (Fin 0) \<and> \<not> f_gt (samples ! i) (threshes ! i)
               then threshed_lognorm_cell (samples ! i) (threshes ! i)
                      (fst (moderate_stats ! i)) (snd (moderate_stats ! i)) (1 / 1000000)
               else NaN)"
    and n5: "t5 ! i = (if isnan (samples ! i) then NaN
               else f_mul (of_bool_f (f_ge (samples ! i) (threshes ! i) \<and> f_gt (samples ! i) (Fin 0)))
                      (f_log (excess_probs ! i)))"
    and n6: "t6 ! i = (if f_gt (samples ! i) (threshes ! i)
               then gpd_cell (f_sub (samples ! i) (threshes ! i))
                      (fst (gpd_stats ! i)) (snd (gpd_stats ! i))
               else NaN)"
    by blast
  have "t3 ! i = Fin 0"
    using n3 assms(7-12) by (simp add: of_bool_f_def f_sub_def)
  moreover have "t4 ! i = threshed_lognorm_cell (Fin c) (Fin c) (fst (moderate_stats ! i))
                (snd (moderate_stats ! i)) (1 / 1000000)"
    using n4 assms(7-9) by (simp add: f_gt_def)
  moreover have "t5 ! i = Fin (ln pe)"
    using n5 assms(7-12) by (simp add: of_bool_f_def f_ge_def f_le_def f_gt_def)
  moreover have "t6 ! i = NaN"
    using n6 assms(7-9) by (simp add: f_gt_def)
  ultimately show ?thesis using terms by blast
qed

theorem loglik_threshold_tie_witness:
  "\<exists>t1 t2 t3 t4 t5 t6.
     loglik_terms [Fin 5] [(Fin (1 / 10), Fin 2)] [(Fin 1, Fin 1)] [Fin (3 / 10)] [Fin (1 / 5)]
       [Fin 5] ''lognormal'' = Inr (t1, t2, t3, t4, t5, t6) \<and>
     t3 ! 0 = Fin 0 \<and> t5 ! 0 = Fin (ln (1 / 5)) \<and> t6 ! 0 = NaN"
  using loglik_threshold_tie[of "[(Fin (1 / 10), Fin 2)]" "[Fin 5]" "[(Fin 1, Fin 1)]"
      "[Fin (3 / 10)]" "[Fin (1 / 5)]" "[Fin 5]" 0 5 "1 / 5"]
  by auto

text \<open>
  Claim C3. The claim says that \<open>all_constraints\<close> succeeds in continuity mode when the
  moderate density is lognormal and a threshold array is supplied. The code does not: the
  call \<open>lognormal(thresholds, mu, var, reduction=None)\<close> passes a keyword that
  \<open>lognormal\<close> does not have, so every such call raises TypeError (and leaves the
  threshold array as it was); with continuity mode enabled no call of \<open>all_constraints\<close>
  returns a result at all.
\<close>

theorem all_constraints_continuity_raises:
  "all_constraints binaries gpd_stats main_stats maxis True ''lognormal'' (Some th) =
     (Some th, Inl TypeError) \<and>
   (\<exists>e. snd (all_constraints binaries gpd_stats main_stats maxis True main_func thresholds) =
      Inl e)"
  using all_constraints_continuous all_constraints_continuous_never by simp

text \<open>
  Claim C5. When every entry of the threshold array is \<open>+inf\<close>, \<open>all_mean\<close> (with the
  lognormal moderate density) returns the hurdle-model mean of the specification, and the
  result is the same for any two GP parameter arrays.
\<close>

theorem all_mean_infinite_thresholds:
  assumes "\<forall>t\<in>set threshes. t = PosInf"
  shows "all_mean gpd_stats moderate_stats zero_probs excess_probs threshes ''lognormal'' =
           Inr (hurdle_mean_spec moderate_stats zero_probs excess_probs threshes) \<and>
         all_mean gpd_stats' moderate_stats zero_probs excess_probs threshes ''lognormal'' =
           all_mean gpd_stats moderate_stats zero_probs excess_probs threshes ''lognormal''"
proof -
  have inf: "list_all isinf threshes" using assms by (auto simp add: list_all_iff)
  have eq: "\<And>g. all_mean g moderate_stats zero_probs excess_probs threshes ''lognormal'' =
           Inr (hurdle_mean_spec moderate_stats zero_probs excess_probs threshes)"
    using inf
    by (simp add: all_mean_def hurdle_mean_spec_def Let_def t_sr_def t_sl_def
        t_op_f_mul_commute[of "trunc_lognorm_mean _ _ _ _"])
  show ?thesis by (simp add: eq)
qed

theorem all_mean_infinite_thresholds_witness:
  "all_mean [(Fin (1 / 10), Fin 2), (Fin (- 1), Fin 3)] [(Fin 1, Fin 1), (Fin 1, Fin 1)]
      [Fin (3 / 10), Fin (3 / 10)] [Fin (1 / 5), Fin (1 / 5)] [PosInf, PosInf] ''lognormal'' =
     Inr (hurdle_mean_spec [(Fin 1, Fin 1), (Fin 1, Fin 1)] [Fin (3 / 10), Fin (3 / 10)]
            [Fin (1 / 5), Fin (1 / 5)] [PosInf, PosInf]) \<and>
   all_mean [] [(Fin 1, Fin 1), (Fin 1, Fin 1)]
      [Fin (3 / 10), Fin (3 / 10)] [Fin (1 / 5), Fin (1 / 5)] [PosInf, PosInf] ''lognormal'' =
   all_mean [(Fin (1 / 10), Fin 2), (Fin (- 1), Fin 3)] [(Fin 1, Fin 1), (Fin 1, Fin 1)]
      [Fin (3 / 10), Fin (3 / 10)] [Fin (1 / 5), Fin (1 / 5)] [PosInf, PosInf] ''lognormal''"
  using all_mean_infinite_thresholds[of "[PosInf, PosInf]"
      "[(Fin (1 / 10), Fin 2), (Fin (- 1), Fin 3)]" "[(Fin 1, Fin 1), (Fin 1, Fin 1)]"
      "[Fin (3 / 10), Fin (3 / 10)]" "[Fin (1 / 5), Fin (1 / 5)]" "[]"]
  by simp

text \<open>
  Claim C6. The claim says that \<open>pearsonr\<close> returns the correlation of the jointly
  non-missing entries. The code computes the joint mask and never uses it, and the call in
  its body is a call of \<open>pearsonr\<close> itself: whatever the arrays and however deep the
  stack, the function ends in RecursionError and returns no number.
\<close>

theorem pearsonr_never_returns: "pearsonr depth a b = Inl RecursionError"
  by (rule pearsonr_raises)

text \<open>
  Claim C7, as amended. \<open>lognormal_constraint\<close> returns \<open>mu\<close> unchanged in the first
  slot. In the second slot a raw variance that is NaN gives NaN, and every other raw
  variance gives a finite variance above 0 and at most 30; the bound 30 itself is returned
  for the raw variance \<open>+inf\<close>. Nothing is stated about strictness below 30: the model
  computes finite values exactly, and in double arithmetic the last subtraction rounds.
\<close>

theorem lognormal_constraint_var_range:
  assumes "length mu = length var"
  shows "\<exists>r. lognormal_constraint mu var = Inr r \<and> col0 r = mu \<and>
           (\<forall>i<length var.
              (isnan (var ! i) \<longrightarrow> isnan (col1 r ! i)) \<and>
              (\<not> isnan (var ! i) \<longrightarrow> (\<exists>w. col1 r ! i = Fin w \<and> 0 < w \<and> w \<le> 30)) \<and>
              (var ! i = PosInf \<longrightarrow> col1 r ! i = Fin 30))"
proof -
  have r: "lognormal_constraint mu var = Inr (zip mu (map var_cell var))"
    using assms by (simp add: lognormal_constraint_def upper_thresh_constraint_var stack_def)
  have c0: "col0 (zip mu (map var_cell var)) = mu"
    using assms by (simp add: col0_def)
  have c1: "col1 (zip mu (map var_cell var)) = map var_cell var"
    using assms by (simp add: col1_def)
  have cell: "(isnan v \<longrightarrow> isnan (var_cell v)) \<and>
              (\<not> isnan v \<longrightarrow> (\<exists>w. var_cell v = Fin w \<and> 0 < w \<and> w \<le> 30)) \<and>
              (v = PosInf \<longrightarrow> var_cell v = Fin 30)" for v
    using var_cell_range[of v] var_cell_PosInf by blast
  show ?thesis
    unfolding r using c0 c1 cell by simp
qed

theorem lognormal_constraint_var_range_witness:
  "\<exists>r. lognormal_constraint [Fin 2, Fin 3] [Fin 1000, PosInf] = Inr r \<and>
     col0 r = [Fin 2, Fin 3] \<and>
     (\<exists>w. col1 r ! 0 = Fin w \<and> 0 < w \<and> w \<le> 30) \<and> col1 r ! 1 = Fin 30"
proof -
  from lognormal_constraint_var_range[of "[Fin 2, Fin 3]" "[Fin 1000, PosInf]"]
  obtain r where r: "lognormal_constraint [Fin 2, Fin 3] [Fin 1000, PosInf] = Inr r"
    "col0 r = [Fin 2, Fin 3]"
    and c: "\<forall>i<length [Fin 1000, PosInf].
              (isnan ([Fin 1000, PosInf] ! i) \<longrightarrow> isnan (col1 r ! i)) \<and>
              (\<not> isnan ([Fin 1000, PosInf] ! i) \<longrightarrow> (\<exists>w. col1 r ! i = Fin w \<and> 0 < w \<and> w \<le> 30)) \<and>
              ([Fin 1000, PosInf] ! i = PosInf \<longrightarrow> col1 r ! i = Fin 30)"
    by auto
  from c[rule_format, of 0] have a: "\<exists>w. col1 r ! 0 = Fin w \<and> 0 < w \<and> w \<le> 30" by simp
  from c[rule_format, of 1] have b: "col1 r ! 1 = Fin 30" by simp
  show ?thesis using r a b by blast
qed

text \<open>
  The claim as stated fails at the raw variance \<open>+inf\<close>: \<open>exp\<close> gives \<open>+inf\<close>, the
  softplus of \<open>-inf\<close> is 0, and the constrained variance is 30 itself, not a value
  inside the open interval.
\<close>

theorem lognormal_constraint_saturates_counterexample:
  "lognormal_constraint [Fin 0] [PosInf] = Inr [(Fin 0, Fin 30)] \<and> \<not> ((30::real) < 30)"
  by (simp add: lognormal_constraint_def upper_thresh_constraint_var stack_def var_cell_PosInf)

text \<open>
  Claim C8, as amended. For every samples array and every threshold array that broadcasts
  to the shape of the samples, \<open>compute_class_labels\<close> returns labels of the samples'
  shape: NaN at exactly the cells whose sample is NaN; at every other cell 2 where the
  sample exceeds the threshold that broadcasting pairs with it, else 0 where the sample is
  exactly 0, else 1. A zero sample above a negative threshold is therefore labelled 2, not
  0.
\<close>

theorem compute_class_labels_cells:
  assumes "well_shaped y" "well_shaped threshes"
    "length (shape threshes) \<le> length (shape y)"
    "dims_expand_to (shape y) (pad_shape (length (shape y)) (shape threshes))"
  shows "\<exists>labels. snd (compute_class_labels y threshes) = Inr labels \<and>
           shape labels = shape y \<and> length (cells labels) = length (cells y) \<and>
           (\<forall>i<length (cells y).
              bidx (shape y) (pad_shape (length (shape y)) (shape threshes)) i
                < length (cells threshes) \<and>
              cells labels ! i =
                (if isnan (cells y ! i) then NaN
                 else if f_gt (cells y ! i)
                           (cells threshes !
                              bidx (shape y) (pad_shape (length (shape y)) (shape threshes)) i)
                      then Fin 2
                 else if cells y ! i = Fin 0 then Fin 0
                 else Fin 1) \<and>
              (isnan (cells labels ! i) \<longleftrightarrow> isnan (cells y ! i)))"
proof -
  from class_labels_cell[OF assms] obtain labels where
    l: "snd (compute_class_labels y threshes) = Inr labels" "shape labels = shape y"
      "length (cells labels) = length (cells y)"
    and c: "\<forall>i<length (cells y).
              bidx (shape y) (pad_shape (length (shape y)) (shape threshes)) i
                < length (cells threshes) \<and>
              cells labels ! i =
                (if isnan (cells y ! i) then NaN
                 else if f_gt (cells y ! i)
                           (cells threshes !
                              bidx (shape y) (pad_shape (length (shape y)) (shape threshes)) i)
                      then Fin 2
                 else if cells y ! i = Fin 0 then Fin 0
                 else Fin 1)"
    by blast
  from c have "\<forall>i<length (cells y). (isnan (cells labels ! i) \<longleftrightarrow> isnan (cells y ! i))"
    by simp
  with l c show ?thesis by auto
qed

theorem compute_class_labels_cells_witness:
  "\<exists>labels. snd (compute_class_labels \<lparr>shape = [4], cells = [Fin 0, Fin 5, Fin 50, NaN]\<rparr>
                    \<lparr>shape = [1], cells = [Fin 10]\<rparr>) = Inr labels \<and>
      shape labels = [4] \<and> cells labels ! 2 = Fin 2 \<and> \<not> isnan (cells labels ! 2)"
  using compute_class_labels_cells[of "\<lparr>shape = [4], cells = [Fin 0, Fin 5, Fin 50, NaN]\<rparr>"
      "\<lparr>shape = [1], cells = [Fin 10]\<rparr>"]
  by (auto simp add: well_shaped_def pad_shape_def f_gt_def)

text \<open>
  The claim as stated fails: the sample 0 with the threshold -1 is exactly 0 and gets the
  label 2.
\<close>

theorem compute_class_labels_zero_counterexample:
  "snd (compute_class_labels \<lparr>shape = [1], cells = [Fin 0]\<rparr> \<lparr>shape = [1], cells = [Fin (- 1)]\<rparr>)
     = Inr \<lparr>shape = [1], cells = [Fin 2]\<rparr> \<and>
   [Fin 2] ! 0 \<noteq> Fin 0"
  by (simp add: compute_class_labels_def Let_def pad_shape_def mask_upd_def t_cmp_def t_cmps_def
      ones_like_def f_gt_def upt_rec)

text \<open>
  Claim C9, as amended. \<open>lognormal\<close> writes into its \<open>samples\<close> argument: after a call
  whose body runs, directly or through \<open>threshed_lognorm\<close>, every entry of the caller's
  array that was exactly 0 is 10 and the others are as before, so the array has no zero
  entry left; the density is the one of the array so changed.
\<close>

theorem lognormal_mutates_samples:
  "fst (lognormal samples mu var) = map (\<lambda>x. if x = Fin 0 then Fin 10 else x) samples \<and>
   fst (threshed_lognorm samples threshes mu var eps) =
     map (\<lambda>x. if x = Fin 0 then Fin 10 else x) samples \<and>
   Fin 0 \<notin> set (fst (lognormal samples mu var)) \<and>
   Fin 0 \<notin> set (fst (threshed_lognorm samples threshes mu var eps)) \<and>
   snd (lognormal samples mu var) = snd (lognormal (fst (lognormal samples mu var)) mu var)"
proof -
  have t: "fst (threshed_lognorm samples threshes mu var eps) = fst (lognormal samples mu var)"
    by (simp add: threshed_lognorm_def split: prod.splits)
  have n: "Fin 0 \<notin> set (fst (lognormal samples mu var))"
    by (auto simp add: lognormal_fst)
  show ?thesis
    unfolding t
    using n lognormal_idem[of samples mu var] lognormal_fst[of samples mu var] by simp
qed

text \<open>
  The claim as stated fails for \<open>all_constraints\<close> in continuity mode: the call raises
  before the body of \<open>lognormal\<close> runs, and the caller's threshold array still has its
  zero entry.
\<close>

theorem all_constraints_thresholds_counterexample:
  "all_constraints [Fin 0, Fin 0] [(Fin 0, Fin 0)] [(Fin 0, Fin 0)] [Fin 1] True ''lognormal''
     (Some [Fin 0]) = (Some [Fin 0], Inl TypeError)"
  by (simp add: all_constraints_continuous)

text \<open>
  Claim C10. At a cell whose shape is exactly 0, \<open>gpd_cdf\<close> raises its base to the
  exponent \<open>-1 / 0\<close>, the zero-divisor case of the division, which is \<open>-inf\<close>; there
  is no other branch. \<open>all_cdf\<close> adds this value of \<open>gpd_cdf\<close>, weighted, at every
  cell whose sample exceeds its effective threshold, so the case is reached from the mixture
  CDF; for finite sample, threshold and non-zero scale the value is 0. \<open>gpd\<close> at the same
  shape takes its branch for \<open>xi == 0\<close>: minus \<open>log(sigma) + sample / sigma\<close>, with no
  division by the shape.
\<close>

theorem gpd_cdf_zero_shape:
  assumes "length gpd_stats = length samples" "length moderate_stats = length samples"
    "length zero_probs = length samples" "length excess_probs = length samples"
    "length effective_threshes = length samples" "length actual_threshes = length samples"
    "i < length samples"
    and "fst (gpd_stats ! i) = Fin 0"
    and "f_gt (samples ! i) (effective_threshes ! i)"
  shows "gpd_cdf samples (col0 gpd_stats) (col1 gpd_stats) actual_threshes ! i =
           f_sub (Fin 1)
             (f_pow
                (f_add (Fin 1)
                   (f_div (f_mul (Fin 0) (f_sub (samples ! i) (actual_threshes ! i)))
                      (snd (gpd_stats ! i))))
                (f_div (Fin (- 1)) (Fin 0))) \<and>
         f_div (Fin (- 1)) (Fin 0) = NegInf \<and>
         (\<exists>r. all_cdf samples gpd_stats moderate_stats zero_probs excess_probs effective_threshes
                 actual_threshes ''lognormal'' = Inr r \<and>
               r ! i =
                 f_add
                   (let out = Fin 0;
                        out = (if f_ge (samples ! i) (Fin 0) then f_add out (zero_probs ! i)
                               else out)
                    in if f_gt (samples ! i) (Fin 0)
                       then f_add out
                              (f_mul (f_mul (f_sub (Fin 1) (zero_probs ! i))
                                        (f_sub (Fin 1) (excess_probs ! i)))
                                 (threshed_lognorm_cdf_cell (samples ! i)
                                    (fst (moderate_stats ! i)) (snd (moderate_stats ! i))
                                    (effective_threshes ! i)))
                       else out)
                   (f_mul (f_mul (f_sub (Fin 1) (zero_probs ! i)) (excess_probs ! i))
                      (gpd_cdf samples (col0 gpd_stats) (col1 gpd_stats) actual_threshes ! i))) \<and>
         (\<forall>a b s. samples ! i = Fin a \<and> actual_threshes ! i = Fin b \<and>
                  snd (gpd_stats ! i) = Fin s \<and> s \<noteq> 0 \<longrightarrow>
            gpd_cdf samples (col0 gpd_stats) (col1 gpd_stats) actual_threshes ! i = Fin 0) \<and>
         (\<not> isnan (samples ! i) \<longrightarrow>
            gpd samples (col0 gpd_stats) (col1 gpd_stats) ! i =
              f_mul (f_add (f_log (snd (gpd_stats ! i)))
                       (f_mul (f_div (Fin 1) (snd (gpd_stats ! i))) (samples ! i)))
                (Fin (- 1)))"
proof -
  have cdf: "gpd_cdf samples (col0 gpd_stats) (col1 gpd_stats) actual_threshes ! i =
               gpd_cdf_cell (samples ! i) (Fin 0) (snd (gpd_stats ! i)) (actual_threshes ! i)"
    using assms(1,6,7,8) by (simp add: nth_gpd_cdf col0_def col1_def)
  have A: "gpd_cdf samples (col0 gpd_stats) (col1 gpd_stats) actual_threshes ! i =
           f_sub (Fin 1)
             (f_pow
                (f_add (Fin 1)
                   (f_div (f_mul (Fin 0) (f_sub (samples ! i) (actual_threshes ! i)))
                      (snd (gpd_stats ! i))))
                (f_div (Fin (- 1)) (Fin 0)))"
    unfolding cdf gpd_cdf_cell_def ..
  have B: "f_div (Fin (- 1)) (Fin 0) = NegInf" by simp
  from all_cdf_cells[OF assms(1-7)] obtain r where
    r: "all_cdf samples gpd_stats moderate_stats zero_probs excess_probs effective_threshes
          actual_threshes ''lognormal'' = Inr r"
    and ri: "r ! i =
       (let out = Fin 0;
            out = (if f_ge (samples ! i) (Fin 0) then f_add out (zero_probs ! i) else out);
            out = (if f_gt (samples ! i) (Fin 0)
                   then f_add out
                          (f_mul (f_mul (f_sub (Fin 1) (zero_probs ! i))
                                    (f_sub (Fin 1) (excess_probs ! i)))
                             (threshed_lognorm_cdf_cell (samples ! i) (fst (moderate_stats ! i))
                                (snd (moderate_stats ! i)) (effective_threshes ! i)))
                   else out);
            out = (if f_gt (samples ! i) (effective_threshes ! i)
                   then f_add out
                          (f_mul (f_mul (f_sub (Fin 1) (zero_probs ! i)) (excess_probs ! i))
                             (gpd_cdf_cell (samples ! i) (fst (gpd_stats ! i))
                                (snd (gpd_stats ! i)) (actual_threshes ! i)))
                   else out)
        in out)"
    by blast
  have C: "r ! i =
                 f_add
                   (let out = Fin 0;
                        out = (if f_ge (samples ! i) (Fin 0) then f_add out (zero_probs ! i)
                               else out)
                    in if f_gt (samples ! i) (Fin 0)
                       then f_add out
                              (f_mul (f_mul (f_sub (Fin 1) (zero_probs ! i))
                                        (f_sub (Fin 1) (excess_probs ! i)))
                                 (threshed_lognorm_cdf_cell (samples ! i)
                                    (fst (moderate_stats ! i)) (snd (moderate_stats ! i))
                                    (effective_threshes ! i)))
                       else out)
                   (f_mul (f_mul (f_sub (Fin 1) (zero_probs ! i)) (excess_probs ! i))
                      (gpd_cdf samples (col0 gpd_stats) (col1 gpd_stats) actual_threshes ! i))"
    unfolding ri cdf using assms(8,9) by (simp add: Let_def)
  have D: "\<forall>a b s. samples ! i = Fin a \<and> actual_threshes ! i = Fin b \<and>
                  snd (gpd_stats ! i) = Fin s \<and> s \<noteq> 0 \<longrightarrow>
            gpd_cdf samples (col0 gpd_stats) (col1 gpd_stats) actual_threshes ! i = Fin 0"
    unfolding cdf by (auto simp add: gpd_cdf_cell_def f_sub_def)
  have E: "\<not> isnan (samples ! i) \<longrightarrow>
            gpd samples (col0 gpd_stats) (col1 gpd_stats) ! i =
              f_mul (f_add (f_log (snd (gpd_stats ! i)))
                       (f_mul (f_div (Fin 1) (snd (gpd_stats ! i))) (samples ! i)))
                (Fin (- 1))"
    using assms(1,7,8) by (simp add: nth_gpd col0_def col1_def gpd_cell_def)
  show ?thesis using A B r C D E by blast
qed

theorem gpd_cdf_zero_shape_witness:
  "gpd_cdf [Fin 12] (col0 [(Fin 0, Fin 2)]) (col1 [(Fin 0, Fin 2)]) [Fin 10] ! 0 = Fin 0 \<and>
   (\<exists>r. all_cdf [Fin 12] [(Fin 0, Fin 2)] [(Fin 1, Fin 1)] [Fin (3 / 10)] [Fin (1 / 5)]
           [Fin 10] [Fin 10] ''lognormal'' = Inr r) \<and>
   gpd [Fin 12] (col0 [(Fin 0, Fin 2)]) (col1 [(Fin 0, Fin 2)]) ! 0 = Fin (- (ln 2 + 6))"
  using gpd_cdf_zero_shape[of "[(Fin 0, Fin 2)]" "[Fin 12]" "[(Fin 1, Fin 1)]" "[Fin (3 / 10)]"
      "[Fin (1 / 5)]" "[Fin 10]" "[Fin 10]" 0]
  by (auto simp add: f_gt_def)

end
